theory Spec2Isabelle
  imports Main "HOL-Library.Word"
begin

section \<open>FairGradeForge: the contract's data\<close>

text \<open>
  A shallow embedding of \<^verbatim>\<open>src/contracts/FairGradeForge.sol\<close>.
  Solidity's \<^verbatim>\<open>uint256\<close> is a 256-bit word, an \<^verbatim>\<open>address\<close> a 160-bit word,
  \<^verbatim>\<open>euint32\<close> and \<^verbatim>\<open>externalEuint32\<close> are 32-byte handles, \<^verbatim>\<open>bytes\<close> a list of
  bytes.  A \<^verbatim>\<open>mapping\<close> is a total function: a key never written reads as the
  zero value of the struct.
\<close>

type_synonym uint256 = "256 word"
type_synonym address = "160 word"
type_synonym euint32 = "256 word"
type_synonym externalEuint32 = "256 word"
type_synonym bytes = "8 word list"

record Assignment =
  asg_id :: uint256
  asg_title :: string
  asg_requirements :: string
  asg_deadline :: uint256
  asg_teacher :: address
  asg_submissionCount :: uint256
  asg_isGrading :: bool

record Submission =
  sub_student :: address
  sub_encryptedAnswer :: euint32
  sub_timestamp :: uint256
  sub_exists :: bool

record Grade =
  grd_encryptedScore :: euint32
  grd_timestamp :: uint256
  grd_exists :: bool

text \<open>The value a mapping returns for a key that was never written.\<close>

definition zero_Assignment :: Assignment where
  "zero_Assignment = \<lparr>asg_id = 0, asg_title = [], asg_requirements = [], asg_deadline = 0,
     asg_teacher = 0, asg_submissionCount = 0, asg_isGrading = False\<rparr>"

definition zero_Submission :: Submission where
  "zero_Submission = \<lparr>sub_student = 0, sub_encryptedAnswer = 0, sub_timestamp = 0,
     sub_exists = False\<rparr>"

definition zero_Grade :: Grade where
  "zero_Grade = \<lparr>grd_encryptedScore = 0, grd_timestamp = 0, grd_exists = False\<rparr>"

datatype event =
    AssignmentCreated uint256 address string uint256
  | SubmissionCreated uint256 address uint256
  | GradeAssigned uint256 address uint256

text \<open>
  The principals of the access-control list of the FHE library: \<^verbatim>\<open>FHE.allowThis(h)\<close>
  grants the contract itself, \<^verbatim>\<open>FHE.allow(h, a)\<close> grants the account \<open>a\<close>.
\<close>

datatype principal = ThisContract | Account address

text \<open>
  The contract's storage (\<open>teacher\<close>, \<open>assignments\<close>, \<open>submissions\<close>, \<open>grades\<close>,
  \<open>totalAssignments\<close>), the decryption grants it has made through the FHE library
  (\<open>acl\<close>) and the log of the events it has emitted.
\<close>

record state =
  teacher :: address
  assignments :: "uint256 \<Rightarrow> Assignment"
  submissions :: "uint256 \<Rightarrow> address \<Rightarrow> Submission"
  grades :: "uint256 \<Rightarrow> address \<Rightarrow> Grade"
  totalAssignments :: uint256
  acl :: "(euint32 \<times> principal) set"
  events :: "event list"

text \<open>
  What a call gets from the runtime: \<^verbatim>\<open>msg.sender\<close>, \<^verbatim>\<open>block.timestamp\<close>, and the
  behaviour of \<^verbatim>\<open>FHE.fromExternal\<close> during the transaction.  The FHE library
  (\<^verbatim>\<open>@fhevm/solidity\<close>) is not part of the repository, so the input verifier is a
  parameter: it either returns the handle of the verified ciphertext or rejects the
  proof (\<open>None\<close>), which reverts the transaction.
\<close>

record env =
  msg_sender :: address
  block_timestamp :: uint256
  fromExternal :: "externalEuint32 \<Rightarrow> bytes \<Rightarrow> euint32 option"

text \<open>
  A call fails with a \<^verbatim>\<open>require\<close> message, with an arithmetic panic
  (checked \<^verbatim>\<open>++\<close> of Solidity 0.8, code 0x11) or because the input verifier
  rejected the proof.
\<close>

datatype error = Revert string | Panic nat | InvalidProof

text \<open>The names the specification gives to the \<^verbatim>\<open>require\<close> messages of the contract.\<close>

abbreviation Unauthorized :: error where
  "Unauthorized \<equiv> Revert ''Only teacher can call this function''"
abbreviation SelfSubmissionForbidden :: error where
  "SelfSubmissionForbidden \<equiv> Revert ''Teacher cannot submit assignments''"
abbreviation InvalidDeadline :: error where
  "InvalidDeadline \<equiv> Revert ''Deadline must be in the future''"
abbreviation EmptyTitle :: error where
  "EmptyTitle \<equiv> Revert ''Title cannot be empty''"
abbreviation NotFound :: error where
  "NotFound \<equiv> Revert ''Assignment does not exist''"
abbreviation DeadlinePassed :: error where
  "DeadlinePassed \<equiv> Revert ''Deadline has passed''"
abbreviation AlreadySubmitted :: error where
  "AlreadySubmitted \<equiv> Revert ''Already submitted''"
abbreviation GradingNotOpen :: error where
  "GradingNotOpen \<equiv> Revert ''Deadline has not passed''"
abbreviation AlreadyStarted :: error where
  "AlreadyStarted \<equiv> Revert ''Grading already started''"
abbreviation NoSubmission :: error where
  "NoSubmission \<equiv> Revert ''Submission does not exist''"
abbreviation AlreadyGraded :: error where
  "AlreadyGraded \<equiv> Revert ''Already graded''"

text \<open>
  The result of running a function body: \<open>Inr\<close> the returned value and the new
  storage, or \<open>Inl\<close> the error together with the storage as the body had written it
  when it failed.  The latter is what the EVM then discards (see \<open>transact\<close>).
\<close>

type_synonym 'a result = "(error \<times> state) + ('a \<times> state)"

section \<open>The contract's functions\<close>

text \<open>\<^verbatim>\<open>x++\<close> on a \<^verbatim>\<open>uint256\<close> under Solidity 0.8: a panic at the largest value.\<close>

definition checked_inc :: "uint256 \<Rightarrow> uint256 option" where
  "checked_inc x = (if x = - 1 then None else Some (x + 1))"

text \<open>
  \<^verbatim>\<open>FHE.allow\<close> and \<^verbatim>\<open>FHE.allowThis\<close> record a grant.  The contract calls them only
  on the handle that \<^verbatim>\<open>FHE.fromExternal\<close> has just returned to it, for which the
  library lets the calling contract make grants.
\<close>

definition allow :: "state \<Rightarrow> euint32 \<Rightarrow> address \<Rightarrow> state" where
  "allow s h a = s\<lparr>acl := insert (h, Account a) (acl s)\<rparr>"

definition allowThis :: "state \<Rightarrow> euint32 \<Rightarrow> state" where
  "allowThis s h = s\<lparr>acl := insert (h, ThisContract) (acl s)\<rparr>"

definition constructor :: "address \<Rightarrow> state" where
  "constructor sender = \<lparr>teacher = sender, assignments = (\<lambda>_. zero_Assignment),
     submissions = (\<lambda>_ _. zero_Submission), grades = (\<lambda>_ _. zero_Grade),
     totalAssignments = 0, acl = {}, events = []\<rparr>"

definition createAssignment ::
  "state \<Rightarrow> env \<Rightarrow> string \<Rightarrow> string \<Rightarrow> uint256 \<Rightarrow> uint256 result" where
  "createAssignment s e title requirements deadline =
    (if msg_sender e \<noteq> teacher s then Inl (Unauthorized, s)
     else if \<not> block_timestamp e < deadline then Inl (InvalidDeadline, s)
     else if \<not> 0 < length title then Inl (EmptyTitle, s)
     else
       let assignmentId = totalAssignments s in
       (case checked_inc (totalAssignments s) of
          None \<Rightarrow> Inl (Panic 17, s)
        | Some n \<Rightarrow>
            let s1 = s\<lparr>totalAssignments := n\<rparr>;
                s2 = s1\<lparr>assignments := (assignments s1)(assignmentId :=
                       \<lparr>asg_id = assignmentId, asg_title = title,
                        asg_requirements = requirements, asg_deadline = deadline,
                        asg_teacher = msg_sender e, asg_submissionCount = 0,
                        asg_isGrading = False\<rparr>)\<rparr>;
                s3 = s2\<lparr>events := events s2 @
                       [AssignmentCreated assignmentId (msg_sender e) title deadline]\<rparr>
            in Inr (assignmentId, s3)))"

definition submitAssignment ::
  "state \<Rightarrow> env \<Rightarrow> uint256 \<Rightarrow> externalEuint32 \<Rightarrow> bytes \<Rightarrow> unit result" where
  "submitAssignment s e assignmentId encryptedAnswer inputProof =
    (if \<not> msg_sender e \<noteq> teacher s then Inl (SelfSubmissionForbidden, s)
     else
       let assignment = assignments s assignmentId in
       if \<not> 0 < asg_deadline assignment then Inl (NotFound, s)
       else if \<not> block_timestamp e < asg_deadline assignment then Inl (DeadlinePassed, s)
       else if \<not> \<not> sub_exists (submissions s assignmentId (msg_sender e))
         then Inl (AlreadySubmitted, s)
       else
         (case fromExternal e encryptedAnswer inputProof of
            None \<Rightarrow> Inl (InvalidProof, s)
          | Some encryptedEuint32 \<Rightarrow>
              let s1 = allowThis s encryptedEuint32;
                  s2 = allow s1 encryptedEuint32 (teacher s1);
                  s3 = s2\<lparr>submissions := (submissions s2)(assignmentId :=
                         (submissions s2 assignmentId)(msg_sender e :=
                           \<lparr>sub_student = msg_sender e,
                            sub_encryptedAnswer = encryptedEuint32,
                            sub_timestamp = block_timestamp e,
                            sub_exists = True\<rparr>))\<rparr>
              in
              (case checked_inc (asg_submissionCount (assignments s3 assignmentId)) of
                 None \<Rightarrow> Inl (Panic 17, s3)
               | Some n \<Rightarrow>
                   let s4 = s3\<lparr>assignments := (assignments s3)(assignmentId :=
                              (assignments s3 assignmentId)\<lparr>asg_submissionCount := n\<rparr>)\<rparr>;
                       s5 = s4\<lparr>events := events s4 @
                              [SubmissionCreated assignmentId (msg_sender e)
                                 (block_timestamp e)]\<rparr>
                   in Inr ((), s5))))"

definition startGrading :: "state \<Rightarrow> env \<Rightarrow> uint256 \<Rightarrow> unit result" where
  "startGrading s e assignmentId =
    (if msg_sender e \<noteq> teacher s then Inl (Unauthorized, s)
     else
       let assignment = assignments s assignmentId in
       if \<not> 0 < asg_deadline assignment then Inl (NotFound, s)
       else if \<not> asg_deadline assignment \<le> block_timestamp e then Inl (GradingNotOpen, s)
       else if \<not> \<not> asg_isGrading assignment then Inl (AlreadyStarted, s)
       else
         Inr ((), s\<lparr>assignments := (assignments s)(assignmentId :=
                     (assignments s assignmentId)\<lparr>asg_isGrading := True\<rparr>)\<rparr>))"

definition gradeSubmission ::
  "state \<Rightarrow> env \<Rightarrow> uint256 \<Rightarrow> address \<Rightarrow> externalEuint32 \<Rightarrow> bytes \<Rightarrow> unit result" where
  "gradeSubmission s e assignmentId student encryptedScore inputProof =
    (if msg_sender e \<noteq> teacher s then Inl (Unauthorized, s)
     else
       let assignment = assignments s assignmentId in
       if \<not> 0 < asg_deadline assignment then Inl (NotFound, s)
       else if \<not> asg_deadline assignment \<le> block_timestamp e then Inl (GradingNotOpen, s)
       else if \<not> sub_exists (submissions s assignmentId student) then Inl (NoSubmission, s)
       else if \<not> \<not> grd_exists (grades s assignmentId student) then Inl (AlreadyGraded, s)
       else
         (case fromExternal e encryptedScore inputProof of
            None \<Rightarrow> Inl (InvalidProof, s)
          | Some encryptedEuint32 \<Rightarrow>
              let s1 = allowThis s encryptedEuint32;
                  s2 = allow s1 encryptedEuint32 student;
                  s3 = s2\<lparr>grades := (grades s2)(assignmentId :=
                         (grades s2 assignmentId)(student :=
                           \<lparr>grd_encryptedScore = encryptedEuint32,
                            grd_timestamp = block_timestamp e,
                            grd_exists = True\<rparr>))\<rparr>;
                  s4 = s3\<lparr>events := events s3 @
                         [GradeAssigned assignmentId student (block_timestamp e)]\<rparr>
              in Inr ((), s4)))"

text \<open>The view functions.  A failing \<^verbatim>\<open>require\<close> of a view is \<open>Inl\<close>.\<close>

definition getAssignment ::
  "state \<Rightarrow> uint256 \<Rightarrow> error + (string \<times> string \<times> uint256 \<times> uint256 \<times> bool)" where
  "getAssignment s assignmentId =
    (let assignment = assignments s assignmentId in
     if \<not> 0 < asg_deadline assignment then Inl NotFound
     else Inr (asg_title assignment, asg_requirements assignment, asg_deadline assignment,
               asg_submissionCount assignment, asg_isGrading assignment))"

definition getSubmission ::
  "state \<Rightarrow> uint256 \<Rightarrow> address \<Rightarrow> error + (euint32 \<times> uint256 \<times> bool)" where
  "getSubmission s assignmentId student =
    (let submission = submissions s assignmentId student in
     Inr (sub_encryptedAnswer submission, sub_timestamp submission, sub_exists submission))"

definition getGrade ::
  "state \<Rightarrow> uint256 \<Rightarrow> address \<Rightarrow> error + (euint32 \<times> uint256 \<times> bool)" where
  "getGrade s assignmentId student =
    (let grade = grades s assignmentId student in
     Inr (grd_encryptedScore grade, grd_timestamp grade, grd_exists grade))"

definition hasSubmitted :: "state \<Rightarrow> uint256 \<Rightarrow> address \<Rightarrow> bool" where
  "hasSubmitted s assignmentId student = sub_exists (submissions s assignmentId student)"

definition hasGrade :: "state \<Rightarrow> uint256 \<Rightarrow> address \<Rightarrow> bool" where
  "hasGrade s assignmentId student = grd_exists (grades s assignmentId student)"

section \<open>Transactions\<close>

text \<open>The four state-changing entry points with their arguments.\<close>

datatype call =
    CreateAssignment string string uint256
  | SubmitAssignment uint256 externalEuint32 bytes
  | StartGrading uint256
  | GradeSubmission uint256 address externalEuint32 bytes

text \<open>Running a call; the value \<^verbatim>\<open>createAssignment\<close> returns is dropped.\<close>

fun dispatch :: "state \<Rightarrow> env \<Rightarrow> call \<Rightarrow> unit result" where
  "dispatch s e (CreateAssignment title requirements deadline) =
     map_sum id (\<lambda>(_, s'). ((), s')) (createAssignment s e title requirements deadline)"
| "dispatch s e (SubmitAssignment assignmentId encryptedAnswer inputProof) =
     submitAssignment s e assignmentId encryptedAnswer inputProof"
| "dispatch s e (StartGrading assignmentId) = startGrading s e assignmentId"
| "dispatch s e (GradeSubmission assignmentId student encryptedScore inputProof) =
     gradeSubmission s e assignmentId student encryptedScore inputProof"

text \<open>
  A transaction of the EVM: a call that fails is reverted, that is, every write of
  its body is discarded and the storage is the one before the call.
\<close>

definition transact :: "state \<Rightarrow> env \<times> call \<Rightarrow> state" where
  "transact s tx = (case dispatch s (fst tx) (snd tx) of
                      Inl (err, dirty) \<Rightarrow> s
                    | Inr (u, s') \<Rightarrow> s')"

fun run :: "state \<Rightarrow> (env \<times> call) list \<Rightarrow> state" where
  "run s [] = s"
| "run s (tx # txs) = run (transact s tx) txs"

text \<open>The states of a deployed contract: any transactions after the constructor.\<close>

inductive reachable :: "state \<Rightarrow> bool" where
  init: "reachable (constructor deployer)"
| step: "reachable s \<Longrightarrow> reachable (transact s tx)"

text \<open>The error a call failed with, or \<open>None\<close> when it succeeded.\<close>

definition failure :: "'a result \<Rightarrow> error option" where
  "failure r = (case r of Inl (err, dirty) \<Rightarrow> Some err | Inr _ \<Rightarrow> None)"

section \<open>Invariants of the reachable states\<close>

text \<open>
  Assignment slots at or beyond \<open>totalAssignments\<close> were never written; the creator
  of every existing assignment is the teacher; a stored submission belongs to an
  existing assignment, to a student other than the teacher, and was made before the
  deadline; a stored grade has a submission and was given at or after the deadline;
  a record whose \<open>exists\<close> flag is unset is the zero record; \<open>submissionCount\<close> is the
  number of students with a stored submission.
\<close>

definition fresh_slots :: "state \<Rightarrow> bool" where
  "fresh_slots s \<longleftrightarrow> (\<forall>a. totalAssignments s \<le> a \<longrightarrow> assignments s a = zero_Assignment)"

definition creator_is_teacher :: "state \<Rightarrow> bool" where
  "creator_is_teacher s \<longleftrightarrow>
     (\<forall>a. 0 < asg_deadline (assignments s a) \<longrightarrow> asg_teacher (assignments s a) = teacher s)"

definition submissions_wf :: "state \<Rightarrow> bool" where
  "submissions_wf s \<longleftrightarrow> (\<forall>a st. sub_exists (submissions s a st) \<longrightarrow>
     0 < asg_deadline (assignments s a) \<and> st \<noteq> teacher s \<and>
     sub_student (submissions s a st) = st \<and>
     sub_timestamp (submissions s a st) < asg_deadline (assignments s a))"

definition grades_wf :: "state \<Rightarrow> bool" where
  "grades_wf s \<longleftrightarrow> (\<forall>a st. grd_exists (grades s a st) \<longrightarrow>
     sub_exists (submissions s a st) \<and>
     asg_deadline (assignments s a) \<le> grd_timestamp (grades s a st))"

definition absent_zero :: "state \<Rightarrow> bool" where
  "absent_zero s \<longleftrightarrow> (\<forall>a st.
     (\<not> sub_exists (submissions s a st) \<longrightarrow> submissions s a st = zero_Submission) \<and>
     (\<not> grd_exists (grades s a st) \<longrightarrow> grades s a st = zero_Grade))"

definition count_ok :: "state \<Rightarrow> bool" where
  "count_ok s \<longleftrightarrow> (\<forall>a. unat (asg_submissionCount (assignments s a)) =
     card {st. sub_exists (submissions s a st)})"

section \<open>A concrete run\<close>

text \<open>
  A stand-in for the input verifier in the concrete runs below: it accepts every
  non-empty proof and returns the handle it was given.
\<close>

definition nonempty_proof :: "externalEuint32 \<Rightarrow> bytes \<Rightarrow> euint32 option" where
  "nonempty_proof c p = (if p = [] then None else Some c)"

definition caller_at :: "address \<Rightarrow> uint256 \<Rightarrow> env" where
  "caller_at a t = \<lparr>msg_sender = a, block_timestamp = t, fromExternal = nonempty_proof\<rparr>"

text \<open>
  Account 1 deploys the contract and at time 1000 creates assignment 0 with deadline
  1100 and assignment 1 with deadline 2000; the students 2 and 3 submit to assignment
  0 at 1050 and 1060; the teacher grades student 2 at 1150.
\<close>

definition scenario_created :: state where
  "scenario_created = run (constructor 1)
     [(caller_at 1 1000, CreateAssignment ''essay'' ''two pages'' 1100),
      (caller_at 1 1000, CreateAssignment ''quiz'' ''ten questions'' 2000)]"

definition scenario_submitted :: state where
  "scenario_submitted = run scenario_created
     [(caller_at 2 1050, SubmitAssignment 0 7 [1]),
      (caller_at 3 1060, SubmitAssignment 0 8 [1])]"

definition scenario_graded :: state where
  "scenario_graded = run scenario_submitted
     [(caller_at 1 1150, GradeSubmission 0 2 9 [1])]"

section \<open>What a successful call has checked and written\<close>

lemma checked_inc_Some: "checked_inc x = Some n \<longleftrightarrow> x \<noteq> - 1 \<and> n = x + 1"
  by (auto simp: checked_inc_def)

lemma createAssignment_Inr:
  assumes "createAssignment s e title requirements deadline = Inr (r, s')"
  shows "msg_sender e = teacher s" "block_timestamp e < deadline" "title \<noteq> []"
    "totalAssignments s \<noteq> - 1" "r = totalAssignments s"
    "teacher s' = teacher s" "totalAssignments s' = totalAssignments s + 1"
    "assignments s' = (assignments s)(totalAssignments s :=
       \<lparr>asg_id = totalAssignments s, asg_title = title, asg_requirements = requirements,
        asg_deadline = deadline, asg_teacher = msg_sender e, asg_submissionCount = 0,
        asg_isGrading = False\<rparr>)"
    "submissions s' = submissions s" "grades s' = grades s" "acl s' = acl s"
    "events s' = events s @ [AssignmentCreated (totalAssignments s) (msg_sender e) title deadline]"
  using assms
  by (auto simp: createAssignment_def Let_def checked_inc_Some split: if_splits option.splits)

lemma submitAssignment_Inr:
  assumes "submitAssignment s e a c p = Inr (r, s')"
  shows "msg_sender e \<noteq> teacher s" "0 < asg_deadline (assignments s a)"
    "block_timestamp e < asg_deadline (assignments s a)"
    "\<not> sub_exists (submissions s a (msg_sender e))"
    "asg_submissionCount (assignments s a) \<noteq> - 1"
    "teacher s' = teacher s" "totalAssignments s' = totalAssignments s"
    "assignments s' = (assignments s)(a := (assignments s a)
       \<lparr>asg_submissionCount := asg_submissionCount (assignments s a) + 1\<rparr>)"
    "\<exists>h. fromExternal e c p = Some h \<and>
       submissions s' = (submissions s)(a := (submissions s a)(msg_sender e :=
         \<lparr>sub_student = msg_sender e, sub_encryptedAnswer = h,
          sub_timestamp = block_timestamp e, sub_exists = True\<rparr>)) \<and>
       acl s' = insert (h, Account (teacher s)) (insert (h, ThisContract) (acl s))"
    "grades s' = grades s"
    "events s' = events s @ [SubmissionCreated a (msg_sender e) (block_timestamp e)]"
  using assms
  by (auto simp: submitAssignment_def Let_def checked_inc_Some allow_def allowThis_def
      split: if_splits option.splits)

lemma startGrading_Inr:
  assumes "startGrading s e a = Inr (r, s')"
  shows "msg_sender e = teacher s" "0 < asg_deadline (assignments s a)"
    "asg_deadline (assignments s a) \<le> block_timestamp e"
    "\<not> asg_isGrading (assignments s a)"
    "teacher s' = teacher s" "totalAssignments s' = totalAssignments s"
    "assignments s' = (assignments s)(a := (assignments s a)\<lparr>asg_isGrading := True\<rparr>)"
    "submissions s' = submissions s" "grades s' = grades s" "acl s' = acl s"
    "events s' = events s"
  using assms
  by (auto simp: startGrading_def Let_def split: if_splits)

lemma gradeSubmission_Inr:
  assumes "gradeSubmission s e a st c p = Inr (r, s')"
  shows "msg_sender e = teacher s" "0 < asg_deadline (assignments s a)"
    "asg_deadline (assignments s a) \<le> block_timestamp e"
    "sub_exists (submissions s a st)" "\<not> grd_exists (grades s a st)"
    "teacher s' = teacher s" "totalAssignments s' = totalAssignments s"
    "assignments s' = assignments s" "submissions s' = submissions s"
    "\<exists>h. fromExternal e c p = Some h \<and>
       grades s' = (grades s)(a := (grades s a)(st :=
         \<lparr>grd_encryptedScore = h, grd_timestamp = block_timestamp e, grd_exists = True\<rparr>)) \<and>
       acl s' = insert (h, Account st) (insert (h, ThisContract) (acl s))"
    "events s' = events s @ [GradeAssigned a st (block_timestamp e)]"
  using assms
  by (auto simp: gradeSubmission_def Let_def allow_def allowThis_def
      split: if_splits option.splits)

section \<open>Preservation of the invariants\<close>

lemma transact_cases [consumes 0, case_names failed create submit start grade]:
  obtains
    "transact s tx = s"
  | e title requirements deadline r where "tx = (e, CreateAssignment title requirements deadline)"
      "createAssignment s e title requirements deadline = Inr (r, transact s tx)"
  | e a c p where "tx = (e, SubmitAssignment a c p)"
      "submitAssignment s e a c p = Inr ((), transact s tx)"
  | e a where "tx = (e, StartGrading a)" "startGrading s e a = Inr ((), transact s tx)"
  | e a st c p where "tx = (e, GradeSubmission a st c p)"
      "gradeSubmission s e a st c p = Inr ((), transact s tx)"
proof (cases tx)
  case (Pair e c)
  show ?thesis
  proof (cases c)
    case (CreateAssignment t r d)
    with Pair that(1,2) show ?thesis
      by (cases "createAssignment s e t r d") (auto simp: transact_def)
  next
    case (SubmitAssignment a c p)
    with Pair that(1,3) show ?thesis
      by (cases "submitAssignment s e a c p") (auto simp: transact_def)
  next
    case (StartGrading a)
    with Pair that(1,4) show ?thesis
      by (cases "startGrading s e a") (auto simp: transact_def)
  next
    case (GradeSubmission a st c p)
    with Pair that(1,5) show ?thesis
      by (cases "gradeSubmission s e a st c p") (auto simp: transact_def)
  qed
qed

lemma zero_Assignment_simps:
  "asg_deadline zero_Assignment = 0" "asg_submissionCount zero_Assignment = 0"
  "asg_teacher zero_Assignment = 0" "asg_isGrading zero_Assignment = False"
  by (simp_all add: zero_Assignment_def)

lemma fresh_slots_transact: "fresh_slots s \<Longrightarrow> fresh_slots (transact s tx)"
proof (cases rule: transact_cases [of s tx])
  case failed
  assume "fresh_slots s" with failed show ?thesis by simp
next
  case (create e title requirements deadline r)
  assume inv: "fresh_slots s"
  note eff = createAssignment_Inr [OF create(2)]
  show ?thesis unfolding fresh_slots_def
  proof (intro allI impI)
    fix a assume "totalAssignments (transact s tx) \<le> a"
    then have "totalAssignments s + 1 \<le> a" by (simp add: eff)
    with eff(4) have "totalAssignments s < a"
      by (simp add: inc_less_eq_iff)
    then show "assignments (transact s tx) a = zero_Assignment"
      using inv by (auto simp: eff fresh_slots_def)
  qed
next
  case (submit e a c p)
  assume inv: "fresh_slots s"
  note eff = submitAssignment_Inr [OF submit(2)]
  from eff(2) inv have "\<not> totalAssignments s \<le> a"
    by (auto simp: fresh_slots_def zero_Assignment_simps)
  with inv show ?thesis by (auto simp: fresh_slots_def eff)
next
  case (start e a)
  assume inv: "fresh_slots s"
  note eff = startGrading_Inr [OF start(2)]
  from eff(2) inv have "\<not> totalAssignments s \<le> a"
    by (auto simp: fresh_slots_def zero_Assignment_simps)
  with inv show ?thesis by (auto simp: fresh_slots_def eff)
next
  case (grade e a st c p)
  assume inv: "fresh_slots s"
  note eff = gradeSubmission_Inr [OF grade(2)]
  from inv show ?thesis by (auto simp: fresh_slots_def eff)
qed


lemma creator_is_teacher_transact:
  "creator_is_teacher s \<Longrightarrow> creator_is_teacher (transact s tx)"
proof (cases rule: transact_cases [of s tx])
  case failed
  assume "creator_is_teacher s" with failed show ?thesis by simp
next
  case (create e title requirements deadline r)
  assume "creator_is_teacher s"
  then show ?thesis
    by (auto simp: creator_is_teacher_def createAssignment_Inr [OF create(2)])
next
  case (submit e a c p)
  assume "creator_is_teacher s"
  then show ?thesis
    by (auto simp: creator_is_teacher_def submitAssignment_Inr [OF submit(2)])
next
  case (start e a)
  assume "creator_is_teacher s"
  then show ?thesis
    by (auto simp: creator_is_teacher_def startGrading_Inr [OF start(2)])
next
  case (grade e a st c p)
  assume "creator_is_teacher s"
  then show ?thesis
    by (auto simp: creator_is_teacher_def gradeSubmission_Inr [OF grade(2)])
qed

lemma fresh_slot_no_submission:
  assumes "fresh_slots s" "submissions_wf s"
  shows "\<not> sub_exists (submissions s (totalAssignments s) st)"
proof
  assume "sub_exists (submissions s (totalAssignments s) st)"
  with assms(2) have "0 < asg_deadline (assignments s (totalAssignments s))"
    by (simp add: submissions_wf_def)
  moreover from assms(1) have "assignments s (totalAssignments s) = zero_Assignment"
    by (simp add: fresh_slots_def)
  ultimately show False by (simp add: zero_Assignment_simps)
qed

lemma submissions_wf_transact:
  assumes "fresh_slots s" "submissions_wf s"
  shows "submissions_wf (transact s tx)"
proof (cases rule: transact_cases [of s tx])
  case failed
  with assms show ?thesis by simp
next
  case (create e title requirements deadline r)
  note eff = createAssignment_Inr [OF create(2)]
  show ?thesis unfolding submissions_wf_def
  proof (intro allI impI)
    fix a st assume "sub_exists (submissions (transact s tx) a st)"
    then have ex: "sub_exists (submissions s a st)" by (simp add: eff)
    with fresh_slot_no_submission [OF assms] have "a \<noteq> totalAssignments s" by auto
    with ex assms(2) show "0 < asg_deadline (assignments (transact s tx) a) \<and>
        st \<noteq> teacher (transact s tx) \<and>
        sub_student (submissions (transact s tx) a st) = st \<and>
        sub_timestamp (submissions (transact s tx) a st)
          < asg_deadline (assignments (transact s tx) a)"
      by (simp add: eff submissions_wf_def)
  qed
next
  case (submit e a c p)
  note eff = submitAssignment_Inr [OF submit(2)]
  from eff(9) obtain h where h: "submissions (transact s tx) =
      (submissions s)(a := (submissions s a)(msg_sender e :=
         \<lparr>sub_student = msg_sender e, sub_encryptedAnswer = h,
          sub_timestamp = block_timestamp e, sub_exists = True\<rparr>))" by blast
  from assms(2) eff(1-4) show ?thesis
    by (auto simp: submissions_wf_def eff(6-8) h)
next
  case (start e a)
  from assms(2) show ?thesis
    by (auto simp: submissions_wf_def startGrading_Inr [OF start(2)])
next
  case (grade e a st c p)
  from assms(2) show ?thesis
    by (auto simp: submissions_wf_def gradeSubmission_Inr [OF grade(2)])
qed

lemma grades_wf_transact:
  assumes "fresh_slots s" "submissions_wf s" "grades_wf s"
  shows "grades_wf (transact s tx)"
proof (cases rule: transact_cases [of s tx])
  case failed
  with assms show ?thesis by simp
next
  case (create e title requirements deadline r)
  note eff = createAssignment_Inr [OF create(2)]
  show ?thesis unfolding grades_wf_def
  proof (intro allI impI)
    fix a st assume "grd_exists (grades (transact s tx) a st)"
    then have g: "grd_exists (grades s a st)" by (simp add: eff)
    with assms(3) have ex: "sub_exists (submissions s a st)" by (simp add: grades_wf_def)
    with fresh_slot_no_submission [OF assms(1,2)] have "a \<noteq> totalAssignments s" by auto
    with g assms(3) show "sub_exists (submissions (transact s tx) a st) \<and>
        asg_deadline (assignments (transact s tx) a)
          \<le> grd_timestamp (grades (transact s tx) a st)"
      by (simp add: eff grades_wf_def)
  qed
next
  case (submit e a c p)
  note eff = submitAssignment_Inr [OF submit(2)]
  from eff(9) obtain h where h: "submissions (transact s tx) =
      (submissions s)(a := (submissions s a)(msg_sender e :=
         \<lparr>sub_student = msg_sender e, sub_encryptedAnswer = h,
          sub_timestamp = block_timestamp e, sub_exists = True\<rparr>))" by blast
  from assms(3) show ?thesis
    by (auto simp: grades_wf_def eff(6-8,10) h)
next
  case (start e a)
  from assms(3) show ?thesis
    by (auto simp: grades_wf_def startGrading_Inr [OF start(2)])
next
  case (grade e a st c p)
  note eff = gradeSubmission_Inr [OF grade(2)]
  from eff(10) obtain h where h: "grades (transact s tx) = (grades s)(a := (grades s a)(st :=
         \<lparr>grd_encryptedScore = h, grd_timestamp = block_timestamp e, grd_exists = True\<rparr>))"
    by blast
  from assms(3) eff(1-5) show ?thesis
    by (auto simp: grades_wf_def eff(6-9) h)
qed

lemma absent_zero_transact:
  assumes "absent_zero s"
  shows "absent_zero (transact s tx)"
proof (cases rule: transact_cases [of s tx])
  case failed
  with assms show ?thesis by simp
next
  case (create e title requirements deadline r)
  from assms show ?thesis
    by (simp add: absent_zero_def createAssignment_Inr [OF create(2)])
next
  case (submit e a c p)
  note eff = submitAssignment_Inr [OF submit(2)]
  from eff(9) obtain h where h: "submissions (transact s tx) =
      (submissions s)(a := (submissions s a)(msg_sender e :=
         \<lparr>sub_student = msg_sender e, sub_encryptedAnswer = h,
          sub_timestamp = block_timestamp e, sub_exists = True\<rparr>))" by blast
  from assms show ?thesis
    by (auto simp: absent_zero_def eff(10) h)
next
  case (start e a)
  from assms show ?thesis
    by (simp add: absent_zero_def startGrading_Inr [OF start(2)])
next
  case (grade e a st c p)
  note eff = gradeSubmission_Inr [OF grade(2)]
  from eff(10) obtain h where h: "grades (transact s tx) = (grades s)(a := (grades s a)(st :=
         \<lparr>grd_encryptedScore = h, grd_timestamp = block_timestamp e, grd_exists = True\<rparr>))"
    by blast
  from assms show ?thesis
    by (auto simp: absent_zero_def eff(9) h)
qed

lemma count_ok_transact:
  assumes "fresh_slots s" "count_ok s"
  shows "count_ok (transact s tx)"
proof (cases rule: transact_cases [of s tx])
  case failed
  with assms show ?thesis by simp
next
  case (create e title requirements deadline r)
  note eff = createAssignment_Inr [OF create(2)]
  from assms(1) have "assignments s (totalAssignments s) = zero_Assignment"
    by (simp add: fresh_slots_def)
  with assms(2) have "card {st. sub_exists (submissions s (totalAssignments s) st)} = 0"
    by (metis count_ok_def zero_Assignment_simps(2) unsigned_0)
  with assms(2) show ?thesis
    by (simp add: count_ok_def eff)
next
  case (submit e a c p)
  note eff = submitAssignment_Inr [OF submit(2)]
  from eff(9) obtain h where h: "submissions (transact s tx) =
      (submissions s)(a := (submissions s a)(msg_sender e :=
         \<lparr>sub_student = msg_sender e, sub_encryptedAnswer = h,
          sub_timestamp = block_timestamp e, sub_exists = True\<rparr>))" by blast
  have set: "{st. sub_exists (submissions (transact s tx) a st)} =
      insert (msg_sender e) {st. sub_exists (submissions s a st)}"
    by (auto simp: h)
  have "card {st. sub_exists (submissions (transact s tx) a st)} =
      Suc (card {st. sub_exists (submissions s a st)})"
    unfolding set using eff(4) by (subst card_insert_disjoint) simp_all
  moreover from eff(5) have "unat (asg_submissionCount (assignments s a) + 1) =
      Suc (unat (asg_submissionCount (assignments s a)))"
    by (metis add.commute unatSuc add_eq_0_iff2 minus_equation_iff)
  ultimately have here: "unat (asg_submissionCount (assignments (transact s tx) a)) =
      card {st. sub_exists (submissions (transact s tx) a st)}"
    using assms(2) by (simp add: eff(8) count_ok_def)
  show ?thesis unfolding count_ok_def
  proof
    fix a'
    show "unat (asg_submissionCount (assignments (transact s tx) a')) =
      card {st. sub_exists (submissions (transact s tx) a' st)}"
    proof (cases "a' = a")
      case True with here show ?thesis by simp
    next
      case False with assms(2) show ?thesis by (simp add: eff(8) h count_ok_def)
    qed
  qed
next
  case (start e a)
  from assms(2) show ?thesis
    by (simp add: count_ok_def startGrading_Inr [OF start(2)])
next
  case (grade e a st c p)
  from assms(2) show ?thesis
    by (simp add: count_ok_def gradeSubmission_Inr [OF grade(2)])
qed

section \<open>The reachable states satisfy the invariants\<close>

lemma invariants_constructor:
  "fresh_slots (constructor d)" "creator_is_teacher (constructor d)"
  "submissions_wf (constructor d)" "grades_wf (constructor d)"
  "absent_zero (constructor d)" "count_ok (constructor d)"
  by (simp_all add: constructor_def fresh_slots_def creator_is_teacher_def submissions_wf_def
      grades_wf_def absent_zero_def count_ok_def zero_Assignment_def zero_Submission_def
      zero_Grade_def)

lemma reachable_invariants:
  assumes "reachable s"
  shows "fresh_slots s \<and> creator_is_teacher s \<and> submissions_wf s \<and> grades_wf s \<and>
         absent_zero s \<and> count_ok s"
  using assms
proof (induction rule: reachable.induct)
  case (init deployer)
  show ?case by (simp add: invariants_constructor)
next
  case (step s tx)
  then show ?case
    by (simp add: fresh_slots_transact creator_is_teacher_transact submissions_wf_transact
        grades_wf_transact absent_zero_transact count_ok_transact)
qed

lemma reachable_run: "reachable s \<Longrightarrow> reachable (run s txs)"
  by (induction txs arbitrary: s) (simp_all add: reachable.step)

text \<open>They are the states that some list of transactions leads to.\<close>

lemma run_append: "run s (xs @ ys) = run (run s xs) ys"
  by (induction xs arbitrary: s) simp_all

lemma reachable_iff_run: "reachable s \<longleftrightarrow> (\<exists>d txs. s = run (constructor d) txs)"
proof
  assume "reachable s"
  then show "\<exists>d txs. s = run (constructor d) txs"
  proof (induction rule: reachable.induct)
    case (init deployer)
    have "constructor deployer = run (constructor deployer) []" by simp
    then show ?case by blast
  next
    case (step s tx)
    then obtain d txs where "s = run (constructor d) txs" by blast
    then have "transact s tx = run (constructor d) (txs @ [tx])" by (simp add: run_append)
    then show ?case by blast
  qed
next
  assume "\<exists>d txs. s = run (constructor d) txs"
  then show "reachable s" by (auto simp: reachable_run reachable.init)
qed

lemma teacher_transact: "teacher (transact s tx) = teacher s"
  by (cases rule: transact_cases [of s tx])
     (simp_all add: createAssignment_Inr submitAssignment_Inr startGrading_Inr
        gradeSubmission_Inr)

lemma teacher_run: "teacher (run s txs) = teacher s"
  by (induction txs arbitrary: s) (simp_all add: teacher_transact)

lemma deadline_transact:
  assumes "fresh_slots s" "0 < asg_deadline (assignments s a)"
  shows "asg_deadline (assignments (transact s tx) a) = asg_deadline (assignments s a)"
proof (cases rule: transact_cases [of s tx])
  case failed
  then show ?thesis by simp
next
  case (create e title requirements deadline r)
  from assms have "a \<noteq> totalAssignments s"
    by (auto simp: fresh_slots_def zero_Assignment_simps)
  then show ?thesis by (simp add: createAssignment_Inr [OF create(2)])
next
  case (submit e a' c p)
  show ?thesis by (simp add: submitAssignment_Inr [OF submit(2)])
next
  case (start e a')
  show ?thesis by (simp add: startGrading_Inr [OF start(2)])
next
  case (grade e a' st c p)
  show ?thesis by (simp add: gradeSubmission_Inr [OF grade(2)])
qed

lemma deadline_run:
  assumes "reachable s" "0 < asg_deadline (assignments s a)"
  shows "asg_deadline (assignments (run s txs) a) = asg_deadline (assignments s a)"
  using assms
proof (induction txs arbitrary: s)
  case Nil
  show ?case by simp
next
  case (Cons tx txs)
  from Cons.prems have eq: "asg_deadline (assignments (transact s tx) a) =
      asg_deadline (assignments s a)"
    by (simp add: deadline_transact reachable_invariants)
  with Cons.prems have "asg_deadline (assignments (run (transact s tx) txs) a) =
      asg_deadline (assignments (transact s tx) a)"
    by (intro Cons.IH) (simp_all add: reachable.step)
  with eq show ?case by simp
qed

text \<open>A stored submission or grade is never written again.\<close>

lemma submission_kept_transact:
  assumes "sub_exists (submissions s a st)"
  shows "submissions (transact s tx) a st = submissions s a st"
proof (cases rule: transact_cases [of s tx])
  case failed
  then show ?thesis by simp
next
  case (create e title requirements deadline r)
  show ?thesis by (simp add: createAssignment_Inr [OF create(2)])
next
  case (submit e a' c p)
  note eff = submitAssignment_Inr [OF submit(2)]
  from eff(9) obtain h where h: "submissions (transact s tx) =
      (submissions s)(a' := (submissions s a')(msg_sender e :=
         \<lparr>sub_student = msg_sender e, sub_encryptedAnswer = h,
          sub_timestamp = block_timestamp e, sub_exists = True\<rparr>))" by blast
  from assms eff(4) show ?thesis by (auto simp: h)
next
  case (start e a')
  show ?thesis by (simp add: startGrading_Inr [OF start(2)])
next
  case (grade e a' st' c p)
  show ?thesis by (simp add: gradeSubmission_Inr [OF grade(2)])
qed

lemma grade_kept_transact:
  assumes "grd_exists (grades s a st)"
  shows "grades (transact s tx) a st = grades s a st"
proof (cases rule: transact_cases [of s tx])
  case failed
  then show ?thesis by simp
next
  case (create e title requirements deadline r)
  show ?thesis by (simp add: createAssignment_Inr [OF create(2)])
next
  case (submit e a' c p)
  show ?thesis by (simp add: submitAssignment_Inr [OF submit(2)])
next
  case (start e a')
  show ?thesis by (simp add: startGrading_Inr [OF start(2)])
next
  case (grade e a' st' c p)
  note eff = gradeSubmission_Inr [OF grade(2)]
  from eff(10) obtain h where h: "grades (transact s tx) =
      (grades s)(a' := (grades s a')(st' :=
         \<lparr>grd_encryptedScore = h, grd_timestamp = block_timestamp e, grd_exists = True\<rparr>))"
    by blast
  from assms eff(5) show ?thesis by (auto simp: h)
qed

lemma submission_kept_run:
  "sub_exists (submissions s a st) \<Longrightarrow> submissions (run s txs) a st = submissions s a st"
  by (induction txs arbitrary: s) (simp_all add: submission_kept_transact)

lemma grade_kept_run:
  "grd_exists (grades s a st) \<Longrightarrow> grades (run s txs) a st = grades s a st"
  by (induction txs arbitrary: s) (simp_all add: grade_kept_transact)

text \<open>
  An address has 160 bits, so fewer than \<open>2 ^ 256 - 1\<close> students can have submitted:
  in a reachable state the checked increment of \<open>submissionCount\<close> does not panic.
\<close>

lemma count_not_max:
  assumes "count_ok s"
  shows "asg_submissionCount (assignments s a) \<noteq> - 1"
proof
  assume max: "asg_submissionCount (assignments s a) = - 1"
  have "card {st. sub_exists (submissions s a st)} \<le> card (UNIV :: address set)"
    by (rule card_mono) simp_all
  also have "\<dots> = 2 ^ 160" by (simp add: card_word)
  finally have "unat (asg_submissionCount (assignments s a)) \<le> 2 ^ 160"
    using assms by (simp add: count_ok_def)
  with max have "unat (- 1 :: uint256) \<le> 2 ^ 160" by simp
  then show False by (simp add: unsigned_minus_1_eq_mask mask_eq_exp_minus_1)
qed

section \<open>Evaluating the concrete run\<close>

lemmas scenario_defs = scenario_created_def scenario_submitted_def scenario_graded_def
  caller_at_def nonempty_proof_def transact_def createAssignment_def submitAssignment_def
  startGrading_def gradeSubmission_def constructor_def checked_inc_def allow_def
  allowThis_def zero_Assignment_def zero_Submission_def zero_Grade_def failure_def Let_def

lemma scenario_reachable:
  "reachable scenario_created" "reachable scenario_submitted" "reachable scenario_graded"
  by (simp_all only: scenario_created_def scenario_submitted_def scenario_graded_def
      reachable_run reachable.init)

lemma failure_simps [simp]:
  "failure (Inl (err, d)) = Some err" "failure (Inr x) = None"
  by (simp_all add: failure_def)

section \<open>One submission and one grade per assignment and student\<close>

lemma resubmit_fails:
  assumes "reachable s" "sub_exists (submissions s a (msg_sender e))"
  shows "submitAssignment s e a c p =
    Inl (if block_timestamp e < asg_deadline (assignments s a)
         then AlreadySubmitted else DeadlinePassed, s)"
proof -
  from assms have "0 < asg_deadline (assignments s a)" "msg_sender e \<noteq> teacher s"
    using reachable_invariants [OF assms(1)] by (auto simp: submissions_wf_def)
  with assms(2) show ?thesis by (simp add: submitAssignment_def)
qed

lemma regrade_fails:
  assumes "reachable s" "grd_exists (grades s a st)"
  shows "gradeSubmission s e a st c p =
    Inl (if msg_sender e \<noteq> teacher s then Unauthorized
         else if block_timestamp e < asg_deadline (assignments s a) then GradingNotOpen
         else AlreadyGraded, s)"
proof -
  from assms have sub: "sub_exists (submissions s a st)"
    using reachable_invariants [OF assms(1)] by (auto simp: grades_wf_def)
  then have "0 < asg_deadline (assignments s a)"
    using reachable_invariants [OF assms(1)] by (auto simp: submissions_wf_def)
  with assms(2) sub show ?thesis by (auto simp: gradeSubmission_def Let_def not_less)
qed

lemma submit_stores:
  "submitAssignment s e a c p = Inr (u, s') \<Longrightarrow> sub_exists (submissions s' a (msg_sender e))"
  using submitAssignment_Inr(9) [of s e a c p u s'] by auto

lemma grade_stores:
  "gradeSubmission s e a st c p = Inr (u, s') \<Longrightarrow> grd_exists (grades s' a st)"
  using gradeSubmission_Inr(10) [of s e a st c p u s'] by auto

text \<open>
  Claim C1, as amended.  In every state reachable from the constructor: once
  \<open>submitAssignment\<close> has succeeded for an assignment and a student, the stored
  Submission exists and is the same record after any further transactions, and every
  later \<open>submitAssignment\<close> of that student for that assignment fails, with
  \<open>AlreadySubmitted\<close> while the time is before the deadline and with \<open>DeadlinePassed\<close>
  from the deadline on (the deadline is checked first).  Once \<open>gradeSubmission\<close> has
  succeeded for the pair, the stored Grade exists and is the same record after any
  further transactions, and every later \<open>gradeSubmission\<close> for the pair fails: with
  \<open>Unauthorized\<close> for a caller other than the teacher, with \<open>GradingNotOpen\<close> for a time
  before the deadline, and with \<open>AlreadyGraded\<close> otherwise.
\<close>

theorem once_per_pair:
  assumes "reachable s"
  shows "(submitAssignment s e1 a1 c1 p1 = Inr (u1, s1) \<longrightarrow>
            sub_exists (submissions s1 a1 (msg_sender e1)) \<and>
            submissions (run s1 txs1) a1 (msg_sender e1) = submissions s1 a1 (msg_sender e1) \<and>
            (msg_sender e1' = msg_sender e1 \<longrightarrow>
               failure (submitAssignment (run s1 txs1) e1' a1 c1' p1') =
                 Some (if block_timestamp e1' < asg_deadline (assignments s a1)
                       then AlreadySubmitted else DeadlinePassed))) \<and>
         (gradeSubmission s e2 a2 st2 c2 p2 = Inr (u2, s2) \<longrightarrow>
            grd_exists (grades s2 a2 st2) \<and>
            grades (run s2 txs2) a2 st2 = grades s2 a2 st2 \<and>
            failure (gradeSubmission (run s2 txs2) e2' a2 st2 c2' p2') =
              Some (if msg_sender e2' \<noteq> teacher s then Unauthorized
                    else if block_timestamp e2' < asg_deadline (assignments s a2)
                    then GradingNotOpen else AlreadyGraded))"
proof (intro conjI impI)
  assume ok: "submitAssignment s e1 a1 c1 p1 = Inr (u1, s1)"
  then have s1: "s1 = transact s (e1, SubmitAssignment a1 c1 p1)"
    by (simp add: transact_def)
  with assms have r1: "reachable s1" by (simp add: reachable.step)
  from ok show ex: "sub_exists (submissions s1 a1 (msg_sender e1))" by (rule submit_stores)
  then show kept: "submissions (run s1 txs1) a1 (msg_sender e1) =
      submissions s1 a1 (msg_sender e1)" by (rule submission_kept_run)
  assume same: "msg_sender e1' = msg_sender e1"
  have d0: "0 < asg_deadline (assignments s a1)" by (rule submitAssignment_Inr(2) [OF ok])
  have "asg_deadline (assignments s1 a1) = asg_deadline (assignments s a1)"
    unfolding s1 using assms d0 by (simp add: deadline_transact reachable_invariants)
  moreover from r1 d0 this have "asg_deadline (assignments (run s1 txs1) a1) =
      asg_deadline (assignments s1 a1)" by (simp add: deadline_run)
  ultimately have d: "asg_deadline (assignments (run s1 txs1) a1) =
      asg_deadline (assignments s a1)" by simp
  from ex kept same have "sub_exists (submissions (run s1 txs1) a1 (msg_sender e1'))" by simp
  with r1 show "failure (submitAssignment (run s1 txs1) e1' a1 c1' p1') =
      Some (if block_timestamp e1' < asg_deadline (assignments s a1)
            then AlreadySubmitted else DeadlinePassed)"
    by (simp add: resubmit_fails reachable_run d)
next
  assume ok: "gradeSubmission s e2 a2 st2 c2 p2 = Inr (u2, s2)"
  then have s2: "s2 = transact s (e2, GradeSubmission a2 st2 c2 p2)"
    by (simp add: transact_def)
  with assms have r2: "reachable s2" by (simp add: reachable.step)
  from ok show ex: "grd_exists (grades s2 a2 st2)" by (rule grade_stores)
  then show kept: "grades (run s2 txs2) a2 st2 = grades s2 a2 st2" by (rule grade_kept_run)
  have d0: "0 < asg_deadline (assignments s a2)" by (rule gradeSubmission_Inr(2) [OF ok])
  have "asg_deadline (assignments s2 a2) = asg_deadline (assignments s a2)"
    unfolding s2 using assms d0 by (simp add: deadline_transact reachable_invariants)
  moreover from r2 d0 this have "asg_deadline (assignments (run s2 txs2) a2) =
      asg_deadline (assignments s2 a2)" by (simp add: deadline_run)
  ultimately have d: "asg_deadline (assignments (run s2 txs2) a2) =
      asg_deadline (assignments s a2)" by simp
  have t: "teacher (run s2 txs2) = teacher s" by (simp add: teacher_run s2 teacher_transact)
  from ex kept have "grd_exists (grades (run s2 txs2) a2 st2)" by simp
  with r2 show "failure (gradeSubmission (run s2 txs2) e2' a2 st2 c2' p2') =
      Some (if msg_sender e2' \<noteq> teacher s then Unauthorized
            else if block_timestamp e2' < asg_deadline (assignments s a2)
            then GradingNotOpen else AlreadyGraded)"
    by (simp add: regrade_fails reachable_run d t)
qed

text \<open>
  The claim as stated fails: student 2 submits to assignment 0 (deadline 1100) at time
  1050 and again at time 1100; the second call fails with \<open>DeadlinePassed\<close>, not with
  \<open>AlreadySubmitted\<close>.
\<close>

theorem resubmit_after_deadline_counterexample:
  "failure (submitAssignment scenario_created (caller_at 2 1050) 0 7 [1]) = None \<and>
   transact scenario_created (caller_at 2 1050, SubmitAssignment 0 7 [1]) =
     run scenario_created [(caller_at 2 1050, SubmitAssignment 0 7 [1])] \<and>
   failure (submitAssignment
     (run scenario_created [(caller_at 2 1050, SubmitAssignment 0 7 [1])])
     (caller_at 2 1100) 0 7 [1]) = Some DeadlinePassed \<and>
   DeadlinePassed \<noteq> AlreadySubmitted"
  by (simp add: scenario_defs)

text \<open>
  An instance: in the concrete run, student 4 submits to assignment 1 and the teacher
  grades student 2 on assignment 0; after a further transaction both records are
  there and the repeated calls fail.
\<close>

theorem once_per_pair_witness:
  "failure (submitAssignment scenario_submitted (caller_at 4 1200) 1 5 [1]) = None \<and>
   sub_exists (submissions
     (run (transact scenario_submitted (caller_at 4 1200, SubmitAssignment 1 5 [1]))
        [(caller_at 1 1300, StartGrading 0)]) 1 4) \<and>
   failure (submitAssignment
     (run (transact scenario_submitted (caller_at 4 1200, SubmitAssignment 1 5 [1]))
        [(caller_at 1 1300, StartGrading 0)]) (caller_at 4 1400) 1 6 [2]) =
     Some AlreadySubmitted \<and>
   failure (gradeSubmission scenario_submitted (caller_at 1 1150) 0 2 9 [1]) = None \<and>
   grd_exists (grades (run scenario_graded [(caller_at 1 1300, StartGrading 0)]) 0 2) \<and>
   failure (gradeSubmission (run scenario_graded [(caller_at 1 1300, StartGrading 0)])
     (caller_at 1 1400) 0 2 3 [2]) = Some AlreadyGraded"
proof -
  have sub: "submitAssignment scenario_submitted (caller_at 4 1200) 1 5 [1] =
      Inr ((), transact scenario_submitted (caller_at 4 1200, SubmitAssignment 1 5 [1]))"
    by (simp add: scenario_defs)
  have grd: "gradeSubmission scenario_submitted (caller_at 1 1150) 0 2 9 [1] =
      Inr ((), scenario_graded)"
    by (simp add: scenario_defs)
  have d: "asg_deadline (assignments scenario_submitted 1) = 2000"
    "asg_deadline (assignments scenario_submitted 0) = 1100"
    "teacher scenario_submitted = 1"
    by (simp_all add: scenario_defs)
  note inst = once_per_pair [OF scenario_reachable(2),
      of "caller_at 4 1200" 1 5 "[1]" "()" _ "[(caller_at 1 1300, StartGrading 0)]"
         "caller_at 4 1400" 6 "[2]"
         "caller_at 1 1150" 0 2 9 "[1]" "()" scenario_graded
         "[(caller_at 1 1300, StartGrading 0)]" "caller_at 1 1400" 3 "[2]"]
  from inst sub grd show ?thesis
    by (simp add: d caller_at_def)
qed

section \<open>A grade needs an earlier submission\<close>

lemma grade_without_submission_fails:
  assumes "\<not> sub_exists (submissions s a st)"
  shows "gradeSubmission s e a st c p =
    Inl (if msg_sender e \<noteq> teacher s then Unauthorized
         else if \<not> 0 < asg_deadline (assignments s a) then NotFound
         else if \<not> asg_deadline (assignments s a) \<le> block_timestamp e then GradingNotOpen
         else NoSubmission, s)"
  using assms by (simp add: gradeSubmission_def Let_def)

lemma new_grade_transact:
  assumes "grd_exists (grades (transact s tx) a st)" "\<not> grd_exists (grades s a st)"
  shows "sub_exists (submissions s a st) \<and> submissions (transact s tx) a st = submissions s a st"
proof (cases rule: transact_cases [of s tx])
  case failed
  with assms show ?thesis by simp
next
  case (create e title requirements deadline r)
  from assms show ?thesis by (simp add: createAssignment_Inr [OF create(2)])
next
  case (submit e a' c p)
  from assms show ?thesis by (simp add: submitAssignment_Inr [OF submit(2)])
next
  case (start e a')
  from assms show ?thesis by (simp add: startGrading_Inr [OF start(2)])
next
  case (grade e a' st' c p)
  note eff = gradeSubmission_Inr [OF grade(2)]
  from eff(10) obtain h where h: "grades (transact s tx) =
      (grades s)(a' := (grades s a')(st' :=
         \<lparr>grd_encryptedScore = h, grd_timestamp = block_timestamp e, grd_exists = True\<rparr>))"
    by blast
  from assms have "a' = a \<and> st' = st" by (auto simp: h split: if_splits)
  with eff(4) show ?thesis by (simp add: eff(9))
qed

text \<open>
  Claim C2, as amended.  In every reachable state a Grade for an assignment and a
  student exists only if a Submission for the same key exists, and the Submission is
  the earlier one: its timestamp is strictly smaller, and in the transaction that
  creates the Grade the Submission is already stored and is left as it is.
  \<open>gradeSubmission\<close> always fails, before any write, when no Submission exists for
  the key, with the error of its first failing check: \<open>Unauthorized\<close> for a caller
  other than the teacher, else \<open>NotFound\<close> for a nonexistent assignment, else
  \<open>GradingNotOpen\<close> before the deadline, and \<open>NoSubmission\<close> otherwise.
\<close>

theorem grade_needs_earlier_submission:
  assumes "reachable s"
  shows "(grd_exists (grades s a st) \<longrightarrow>
            sub_exists (submissions s a st) \<and>
            sub_timestamp (submissions s a st) < grd_timestamp (grades s a st)) \<and>
         (\<not> sub_exists (submissions s a st) \<longrightarrow>
            gradeSubmission s e a st c p =
              Inl (if msg_sender e \<noteq> teacher s then Unauthorized
                   else if \<not> 0 < asg_deadline (assignments s a) then NotFound
                   else if \<not> asg_deadline (assignments s a) \<le> block_timestamp e
                     then GradingNotOpen
                   else NoSubmission, s)) \<and>
         (grd_exists (grades (transact s tx) a st) \<and> \<not> grd_exists (grades s a st) \<longrightarrow>
            sub_exists (submissions s a st) \<and>
            submissions (transact s tx) a st = submissions s a st)"
proof (intro conjI impI)
  assume g: "grd_exists (grades s a st)"
  with reachable_invariants [OF assms] show sub: "sub_exists (submissions s a st)"
    by (simp add: grades_wf_def)
  from g reachable_invariants [OF assms]
  have "asg_deadline (assignments s a) \<le> grd_timestamp (grades s a st)"
    by (simp add: grades_wf_def)
  moreover from sub reachable_invariants [OF assms]
  have "sub_timestamp (submissions s a st) < asg_deadline (assignments s a)"
    by (simp add: submissions_wf_def)
  ultimately show "sub_timestamp (submissions s a st) < grd_timestamp (grades s a st)"
    by simp
next
  assume "\<not> sub_exists (submissions s a st)"
  then show "gradeSubmission s e a st c p =
      Inl (if msg_sender e \<noteq> teacher s then Unauthorized
           else if \<not> 0 < asg_deadline (assignments s a) then NotFound
           else if \<not> asg_deadline (assignments s a) \<le> block_timestamp e
             then GradingNotOpen
           else NoSubmission, s)"
    by (rule grade_without_submission_fails)
next
  assume "grd_exists (grades (transact s tx) a st) \<and> \<not> grd_exists (grades s a st)"
  then have *: "sub_exists (submissions s a st) \<and>
      submissions (transact s tx) a st = submissions s a st"
    by (intro new_grade_transact) simp_all
  from * show "sub_exists (submissions s a st)" by simp
  from * show "submissions (transact s tx) a st = submissions s a st" by simp
qed

text \<open>
  The claim as stated fails: before the deadline the teacher grades student 2, who has
  not submitted; the call fails with \<open>GradingNotOpen\<close>, not with \<open>NoSubmission\<close>.
\<close>

theorem grade_before_deadline_counterexample:
  "\<not> sub_exists (submissions scenario_created 0 2) \<and>
   failure (gradeSubmission scenario_created (caller_at 1 1050) 0 2 9 [1]) =
     Some GradingNotOpen \<and>
   GradingNotOpen \<noteq> NoSubmission"
  by (simp add: scenario_defs)

text \<open>
  An instance: after the concrete run student 2 has a grade and an earlier
  submission.  Student 4 has submitted nothing, and grading student 4 fails with
  \<open>Unauthorized\<close> when student 2 calls, with \<open>NotFound\<close> on the nonexistent
  assignment 5, with \<open>GradingNotOpen\<close> on assignment 1 before its deadline 2000 and
  with \<open>NoSubmission\<close> on assignment 0 after its deadline, each time leaving the
  state as it is.  Grading student 3 creates a grade for a submission that was
  already there.
\<close>

theorem grade_needs_earlier_submission_witness:
  "grd_exists (grades scenario_graded 0 2) \<and>
   sub_exists (submissions scenario_graded 0 2) \<and>
   sub_timestamp (submissions scenario_graded 0 2) < grd_timestamp (grades scenario_graded 0 2) \<and>
   \<not> sub_exists (submissions scenario_graded 0 4) \<and>
   gradeSubmission scenario_graded (caller_at 2 1200) 0 4 9 [1] =
     Inl (Unauthorized, scenario_graded) \<and>
   gradeSubmission scenario_graded (caller_at 1 1200) 5 4 9 [1] =
     Inl (NotFound, scenario_graded) \<and>
   gradeSubmission scenario_graded (caller_at 1 1200) 1 4 9 [1] =
     Inl (GradingNotOpen, scenario_graded) \<and>
   gradeSubmission scenario_graded (caller_at 1 1200) 0 4 9 [1] =
     Inl (NoSubmission, scenario_graded) \<and>
   \<not> grd_exists (grades scenario_graded 0 3) \<and>
   grd_exists (grades (transact scenario_graded (caller_at 1 1200, GradeSubmission 0 3 9 [1])) 0 3) \<and>
   sub_exists (submissions scenario_graded 0 3)"
proof -
  have facts: "grd_exists (grades scenario_graded 0 2)"
    "\<not> sub_exists (submissions scenario_graded 0 4)"
    "\<not> sub_exists (submissions scenario_graded 5 4)"
    "\<not> sub_exists (submissions scenario_graded 1 4)"
    "\<not> grd_exists (grades scenario_graded 0 3)"
    "grd_exists (grades (transact scenario_graded (caller_at 1 1200, GradeSubmission 0 3 9 [1])) 0 3)"
    "teacher scenario_graded = 1" "asg_deadline (assignments scenario_graded 0) = 1100"
    "asg_deadline (assignments scenario_graded 1) = 2000"
    "asg_deadline (assignments scenario_graded 5) = 0"
    by (simp_all add: scenario_defs)
  from facts
    grade_needs_earlier_submission [OF scenario_reachable(3), of 0 2]
    grade_needs_earlier_submission [OF scenario_reachable(3), of 0 4 "caller_at 2 1200" 9 "[1]"]
    grade_needs_earlier_submission [OF scenario_reachable(3), of 5 4 "caller_at 1 1200" 9 "[1]"]
    grade_needs_earlier_submission [OF scenario_reachable(3), of 1 4 "caller_at 1 1200" 9 "[1]"]
    grade_needs_earlier_submission [OF scenario_reachable(3), of 0 4 "caller_at 1 1200" 9 "[1]"]
    grade_needs_earlier_submission [OF scenario_reachable(3), of 0 3 _ _ _
      "(caller_at 1 1200, GradeSubmission 0 3 9 [1])"]
  show ?thesis by (simp add: caller_at_def)
qed

section \<open>The submission counter\<close>

lemma count_changed_transact:
  assumes "fresh_slots s"
    "asg_submissionCount (assignments (transact s tx) a) \<noteq>
     asg_submissionCount (assignments s a)"
  shows "\<exists>c p. snd tx = SubmitAssignment a c p \<and>
    failure (submitAssignment s (fst tx) a c p) = None"
proof (cases rule: transact_cases [of s tx])
  case failed
  with assms(2) show ?thesis by simp
next
  case (create e title requirements deadline r)
  note eff = createAssignment_Inr [OF create(2)]
  from assms(1) have "assignments s (totalAssignments s) = zero_Assignment"
    by (simp add: fresh_slots_def)
  then have "asg_submissionCount (assignments (transact s tx) a) =
      asg_submissionCount (assignments s a)"
    by (simp add: eff zero_Assignment_simps)
  with assms(2) show ?thesis by simp
next
  case (submit e a' c p)
  note eff = submitAssignment_Inr [OF submit(2)]
  from assms(2) have "a' = a" by (auto simp: eff split: if_splits)
  with submit show ?thesis by simp
next
  case (start e a')
  from assms(2) show ?thesis by (auto simp: startGrading_Inr [OF start(2)] split: if_splits)
next
  case (grade e a' st c p)
  from assms(2) show ?thesis by (simp add: gradeSubmission_Inr [OF grade(2)])
qed

text \<open>
  Claim C3.  In every reachable state the \<open>submissionCount\<close> of an assignment is the
  number of distinct students with a stored Submission for it; a successful
  \<open>submitAssignment\<close> increments it by exactly one (without wrapping), and a
  transaction that changes it is a successful \<open>submitAssignment\<close> for that assignment.
\<close>

theorem submission_count_exact:
  assumes "reachable s"
  shows "unat (asg_submissionCount (assignments s a)) =
           card {st. sub_exists (submissions s a st)} \<and>
         (submitAssignment s e a c p = Inr (u, s') \<longrightarrow>
            unat (asg_submissionCount (assignments s' a)) =
              unat (asg_submissionCount (assignments s a)) + 1 \<and>
            card {st. sub_exists (submissions s' a st)} =
              card {st. sub_exists (submissions s a st)} + 1) \<and>
         (asg_submissionCount (assignments (transact s tx) a) \<noteq>
            asg_submissionCount (assignments s a) \<longrightarrow>
            (\<exists>c' p'. snd tx = SubmitAssignment a c' p' \<and>
               failure (submitAssignment s (fst tx) a c' p') = None))"
proof (intro conjI impI)
  from reachable_invariants [OF assms]
  show now: "unat (asg_submissionCount (assignments s a)) =
      card {st. sub_exists (submissions s a st)}"
    by (simp add: count_ok_def)
  {
    assume ok: "submitAssignment s e a c p = Inr (u, s')"
    then have "s' = transact s (e, SubmitAssignment a c p)" by (simp add: transact_def)
    with assms have "reachable s'" by (simp add: reachable.step)
    then have after: "unat (asg_submissionCount (assignments s' a)) =
        card {st. sub_exists (submissions s' a st)}"
      using reachable_invariants by (simp add: count_ok_def)
    from submitAssignment_Inr(5) [OF ok]
    have "unat (asg_submissionCount (assignments s a) + 1) =
        Suc (unat (asg_submissionCount (assignments s a)))"
      by (metis add.commute unatSuc add_eq_0_iff2 minus_equation_iff)
    then show inc: "unat (asg_submissionCount (assignments s' a)) =
        unat (asg_submissionCount (assignments s a)) + 1"
      by (simp add: submitAssignment_Inr(8) [OF ok])
    from inc now after show "card {st. sub_exists (submissions s' a st)} =
        card {st. sub_exists (submissions s a st)} + 1"
      by simp
  }
  assume "asg_submissionCount (assignments (transact s tx) a) \<noteq>
      asg_submissionCount (assignments s a)"
  with reachable_invariants [OF assms]
  show "\<exists>c' p'. snd tx = SubmitAssignment a c' p' \<and>
      failure (submitAssignment s (fst tx) a c' p') = None"
    by (simp add: count_changed_transact)
qed

text \<open>
  An instance: in the concrete run assignment 0 has the submissions of the students 2
  and 3 and the count 2; the submission of student 4 makes it 3.
\<close>

theorem submission_count_exact_witness:
  "card {st. sub_exists (submissions scenario_graded 0 st)} = 2 \<and>
   failure (submitAssignment scenario_graded (caller_at 4 1090) 0 5 [1]) = None \<and>
   asg_submissionCount (assignments
     (transact scenario_graded (caller_at 4 1090, SubmitAssignment 0 5 [1])) 0) = 3 \<and>
   card {st. sub_exists (submissions
     (transact scenario_graded (caller_at 4 1090, SubmitAssignment 0 5 [1])) 0 st)} = 3"
proof -
  have ok: "submitAssignment scenario_graded (caller_at 4 1090) 0 5 [1] =
      Inr ((), transact scenario_graded (caller_at 4 1090, SubmitAssignment 0 5 [1]))"
    by (simp add: scenario_defs)
  have c: "asg_submissionCount (assignments scenario_graded 0) = 2"
    "asg_submissionCount (assignments
       (transact scenario_graded (caller_at 4 1090, SubmitAssignment 0 5 [1])) 0) = 3"
    by (simp_all add: scenario_defs)
  from submission_count_exact [OF scenario_reachable(3), of 0 "caller_at 4 1090" 5 "[1]" "()"
      "transact scenario_graded (caller_at 4 1090, SubmitAssignment 0 5 [1])"] ok c
  show ?thesis by simp
qed

section \<open>The deadline\<close>

lemma submitAssignment_outcome:
  assumes "reachable s"
  shows "failure (submitAssignment s e a c p) =
    (if msg_sender e = teacher s then Some SelfSubmissionForbidden
     else if \<not> 0 < asg_deadline (assignments s a) then Some NotFound
     else if \<not> block_timestamp e < asg_deadline (assignments s a) then Some DeadlinePassed
     else if sub_exists (submissions s a (msg_sender e)) then Some AlreadySubmitted
     else if fromExternal e c p = None then Some InvalidProof
     else None)"
proof -
  from reachable_invariants [OF assms] have "asg_submissionCount (assignments s a) \<noteq> - 1"
    by (simp add: count_not_max)
  then show ?thesis
    by (auto simp: submitAssignment_def Let_def allow_def allowThis_def checked_inc_def
        split: option.splits)
qed

lemma gradeSubmission_outcome:
  "failure (gradeSubmission s e a st c p) =
    (if msg_sender e \<noteq> teacher s then Some Unauthorized
     else if \<not> 0 < asg_deadline (assignments s a) then Some NotFound
     else if \<not> asg_deadline (assignments s a) \<le> block_timestamp e then Some GradingNotOpen
     else if \<not> sub_exists (submissions s a st) then Some NoSubmission
     else if grd_exists (grades s a st) then Some AlreadyGraded
     else if fromExternal e c p = None then Some InvalidProof
     else None)"
  by (auto simp: gradeSubmission_def Let_def split: option.splits)

text \<open>
  Claim C4, as amended.  For an existing assignment, a caller other than its creator
  and no earlier Submission for the key, \<open>submitAssignment\<close> fails with
  \<open>DeadlinePassed\<close> for every time at or after the deadline; for every time before
  the deadline it succeeds when the input verifier accepts the ciphertext and its
  proof, and fails with \<open>InvalidProof\<close> when it rejects them.
\<close>

theorem submit_deadline_boundary:
  assumes "reachable s" "0 < asg_deadline (assignments s a)"
    "msg_sender e \<noteq> asg_teacher (assignments s a)"
    "\<not> sub_exists (submissions s a (msg_sender e))"
  shows "failure (submitAssignment s e a c p) =
    (if asg_deadline (assignments s a) \<le> block_timestamp e then Some DeadlinePassed
     else if fromExternal e c p = None then Some InvalidProof
     else None)"
proof -
  from reachable_invariants [OF assms(1)] assms(2)
  have "asg_teacher (assignments s a) = teacher s" by (simp add: creator_is_teacher_def)
  with assms show ?thesis by (simp add: submitAssignment_outcome not_less)
qed

text \<open>
  The claim as stated fails: student 2, who has not submitted, calls
  \<open>submitAssignment\<close> for assignment 0 before its deadline with a proof that the
  verifier rejects; the call fails with \<open>InvalidProof\<close>.
\<close>

theorem submit_rejected_proof_counterexample:
  "0 < asg_deadline (assignments scenario_created 0) \<and>
   msg_sender (caller_at 2 1050) \<noteq> asg_teacher (assignments scenario_created 0) \<and>
   \<not> sub_exists (submissions scenario_created 0 (msg_sender (caller_at 2 1050))) \<and>
   block_timestamp (caller_at 2 1050) < asg_deadline (assignments scenario_created 0) \<and>
   failure (submitAssignment scenario_created (caller_at 2 1050) 0 7 []) = Some InvalidProof"
  by (simp add: scenario_defs)

text \<open>
  An instance, at the boundary: with deadline 1100 the submission of student 2 succeeds
  at time 1099 and fails at time 1100.
\<close>

theorem submit_deadline_boundary_witness:
  "asg_deadline (assignments scenario_created 0) = 1100 \<and>
   failure (submitAssignment scenario_created (caller_at 2 1099) 0 7 [1]) = None \<and>
   failure (submitAssignment scenario_created (caller_at 2 1100) 0 7 [1]) = Some DeadlinePassed"
proof -
  have facts: "asg_deadline (assignments scenario_created 0) = 1100"
    "asg_teacher (assignments scenario_created 0) = 1"
    "\<not> sub_exists (submissions scenario_created 0 2)"
    by (simp_all add: scenario_defs)
  from facts
    submit_deadline_boundary [OF scenario_reachable(1), of 0 "caller_at 2 1099" 7 "[1]"]
    submit_deadline_boundary [OF scenario_reachable(1), of 0 "caller_at 2 1100" 7 "[1]"]
  show ?thesis by (simp add: caller_at_def nonempty_proof_def)
qed

text \<open>
  Claim C5, as amended.  \<open>gradeSubmission\<close> called by the creator of an existing
  assignment fails with \<open>GradingNotOpen\<close> for every time before the deadline.  At any
  time from the deadline on, for a student with a Submission and no Grade, it succeeds
  when the input verifier accepts the encrypted score and its proof and fails with
  \<open>InvalidProof\<close> when it rejects them.  It succeeds exactly once per assignment and
  student: after a success and any further transactions, the stored Grade is still
  the one of that success and every further \<open>gradeSubmission\<close> for the pair fails,
  with \<open>AlreadyGraded\<close> when the creator calls from the deadline on (with
  \<open>Unauthorized\<close> for another caller and \<open>GradingNotOpen\<close> before the deadline).  The
  outcome does not depend on the \<open>isGrading\<close> flag that \<open>startGrading\<close> sets.
\<close>

theorem grade_deadline_boundary:
  assumes "reachable s" "0 < asg_deadline (assignments s a)"
    "msg_sender e = asg_teacher (assignments s a)"
  shows "failure (gradeSubmission s e a st c p) =
           (if block_timestamp e < asg_deadline (assignments s a) then Some GradingNotOpen
            else if \<not> sub_exists (submissions s a st) then Some NoSubmission
            else if grd_exists (grades s a st) then Some AlreadyGraded
            else if fromExternal e c p = None then Some InvalidProof
            else None) \<and>
         failure (gradeSubmission
             (s\<lparr>assignments := (assignments s)(a := (assignments s a)\<lparr>asg_isGrading := b\<rparr>)\<rparr>)
             e a st c p) =
           failure (gradeSubmission s e a st c p) \<and>
         (gradeSubmission s e a st c p = Inr (u, s') \<longrightarrow>
            grd_exists (grades s' a st) \<and>
            grades (run s' txs) a st = grades s' a st \<and>
            failure (gradeSubmission (run s' txs) e' a st c' p') =
              Some (if msg_sender e' \<noteq> msg_sender e then Unauthorized
                    else if block_timestamp e' < asg_deadline (assignments s a)
                      then GradingNotOpen
                    else AlreadyGraded))"
proof (intro conjI impI)
  from reachable_invariants [OF assms(1)] assms(2)
  have t: "asg_teacher (assignments s a) = teacher s" by (simp add: creator_is_teacher_def)
  with assms show "failure (gradeSubmission s e a st c p) =
           (if block_timestamp e < asg_deadline (assignments s a) then Some GradingNotOpen
            else if \<not> sub_exists (submissions s a st) then Some NoSubmission
            else if grd_exists (grades s a st) then Some AlreadyGraded
            else if fromExternal e c p = None then Some InvalidProof
            else None)"
    by (simp add: gradeSubmission_outcome not_le)
  show "failure (gradeSubmission
             (s\<lparr>assignments := (assignments s)(a := (assignments s a)\<lparr>asg_isGrading := b\<rparr>)\<rparr>)
             e a st c p) =
           failure (gradeSubmission s e a st c p)"
    by (simp add: gradeSubmission_outcome)
  assume ok: "gradeSubmission s e a st c p = Inr (u, s')"
  then have s': "s' = transact s (e, GradeSubmission a st c p)"
    by (simp add: transact_def)
  with assms(1) have r': "reachable s'" by (simp add: reachable.step)
  from ok show ex: "grd_exists (grades s' a st)" by (rule grade_stores)
  then show kept: "grades (run s' txs) a st = grades s' a st" by (rule grade_kept_run)
  have "asg_deadline (assignments s' a) = asg_deadline (assignments s a)"
    by (simp add: gradeSubmission_Inr(8) [OF ok])
  moreover from r' assms(2) this have "asg_deadline (assignments (run s' txs) a) =
      asg_deadline (assignments s' a)" by (simp add: deadline_run)
  ultimately have d: "asg_deadline (assignments (run s' txs) a) =
      asg_deadline (assignments s a)" by simp
  have "teacher (run s' txs) = teacher s"
    by (simp add: teacher_run gradeSubmission_Inr(6) [OF ok])
  with t assms(3) have tr: "teacher (run s' txs) = msg_sender e" by simp
  from ex kept have "grd_exists (grades (run s' txs) a st)" by simp
  with r' show "failure (gradeSubmission (run s' txs) e' a st c' p') =
      Some (if msg_sender e' \<noteq> msg_sender e then Unauthorized
            else if block_timestamp e' < asg_deadline (assignments s a)
              then GradingNotOpen
            else AlreadyGraded)"
    by (simp add: regrade_fails reachable_run d tr)
qed

text \<open>
  The claim as stated fails: after the deadline the teacher grades student 2, who has
  a Submission and no Grade, with a proof that the verifier rejects; the call fails
  with \<open>InvalidProof\<close>.
\<close>

theorem grade_rejected_proof_counterexample:
  "msg_sender (caller_at 1 1150) = asg_teacher (assignments scenario_submitted 0) \<and>
   asg_deadline (assignments scenario_submitted 0) \<le> block_timestamp (caller_at 1 1150) \<and>
   sub_exists (submissions scenario_submitted 0 2) \<and>
   \<not> grd_exists (grades scenario_submitted 0 2) \<and>
   failure (gradeSubmission scenario_submitted (caller_at 1 1150) 0 2 9 []) = Some InvalidProof"
  by (simp add: scenario_defs)

text \<open>
  An instance: \<open>startGrading\<close> was not called in the concrete run; grading student 2
  fails at time 1099 and succeeds at the deadline 1100.  After that success, a
  \<open>startGrading\<close>, the grading of student 3 and a rejected submission, the Grade of
  student 2 is the one stored by the success, and grading student 2 again fails with
  \<open>AlreadyGraded\<close> for the teacher and with \<open>Unauthorized\<close> for student 2.
\<close>

theorem grade_deadline_boundary_witness:
  "\<not> asg_isGrading (assignments scenario_submitted 0) \<and>
   failure (gradeSubmission scenario_submitted (caller_at 1 1099) 0 2 9 [1]) =
     Some GradingNotOpen \<and>
   failure (gradeSubmission scenario_submitted (caller_at 1 1100) 0 2 9 [1]) = None \<and>
   grades (run (transact scenario_submitted (caller_at 1 1100, GradeSubmission 0 2 9 [1]))
       [(caller_at 1 1101, StartGrading 0),
        (caller_at 1 1102, GradeSubmission 0 3 6 [1]),
        (caller_at 4 1103, SubmitAssignment 0 5 [1])]) 0 2 =
     \<lparr>grd_encryptedScore = 9, grd_timestamp = 1100, grd_exists = True\<rparr> \<and>
   failure (gradeSubmission
     (run (transact scenario_submitted (caller_at 1 1100, GradeSubmission 0 2 9 [1]))
       [(caller_at 1 1101, StartGrading 0),
        (caller_at 1 1102, GradeSubmission 0 3 6 [1]),
        (caller_at 4 1103, SubmitAssignment 0 5 [1])])
     (caller_at 1 1104) 0 2 8 [1]) = Some AlreadyGraded \<and>
   failure (gradeSubmission
     (run (transact scenario_submitted (caller_at 1 1100, GradeSubmission 0 2 9 [1]))
       [(caller_at 1 1101, StartGrading 0),
        (caller_at 1 1102, GradeSubmission 0 3 6 [1]),
        (caller_at 4 1103, SubmitAssignment 0 5 [1])])
     (caller_at 2 1104) 0 2 8 [1]) = Some Unauthorized"
proof -
  have facts: "asg_deadline (assignments scenario_submitted 0) = 1100"
    "asg_teacher (assignments scenario_submitted 0) = 1"
    "sub_exists (submissions scenario_submitted 0 2)"
    "\<not> grd_exists (grades scenario_submitted 0 2)"
    "\<not> asg_isGrading (assignments scenario_submitted 0)"
    by (simp_all add: scenario_defs)
  have ok: "gradeSubmission scenario_submitted (caller_at 1 1100) 0 2 9 [1] =
      Inr ((), transact scenario_submitted (caller_at 1 1100, GradeSubmission 0 2 9 [1]))"
    by (simp add: scenario_defs)
  have stored: "grades (transact scenario_submitted
      (caller_at 1 1100, GradeSubmission 0 2 9 [1])) 0 2 =
      \<lparr>grd_encryptedScore = 9, grd_timestamp = 1100, grd_exists = True\<rparr>"
    by (simp add: scenario_defs)
  note later = grade_deadline_boundary [OF scenario_reachable(2), of 0 "caller_at 1 1100" 2 9
      "[1]" _ "()" "transact scenario_submitted (caller_at 1 1100, GradeSubmission 0 2 9 [1])"
      "[(caller_at 1 1101, StartGrading 0),
        (caller_at 1 1102, GradeSubmission 0 3 6 [1]),
        (caller_at 4 1103, SubmitAssignment 0 5 [1])]" _ 8 "[1]"]
  from facts ok stored
    grade_deadline_boundary [OF scenario_reachable(2), of 0 "caller_at 1 1099" 2 9 "[1]"]
    later [of _ "caller_at 1 1104"] later [of _ "caller_at 2 1104"]
  show ?thesis by (simp add: caller_at_def nonempty_proof_def)
qed

section \<open>The creator cannot submit\<close>

text \<open>
  Claim C6.  In every reachable state, for every existing assignment and at every
  time, a \<open>submitAssignment\<close> call by the assignment's creator fails with
  \<open>SelfSubmissionForbidden\<close> before anything is written, the state after the
  transaction is the state before it, and the creator has no Submission for the
  assignment.
\<close>

theorem creator_cannot_submit:
  assumes "reachable s" "0 < asg_deadline (assignments s a)"
    "msg_sender e = asg_teacher (assignments s a)"
  shows "submitAssignment s e a c p = Inl (SelfSubmissionForbidden, s) \<and>
         transact s (e, SubmitAssignment a c p) = s \<and>
         \<not> sub_exists (submissions s a (asg_teacher (assignments s a)))"
proof -
  from reachable_invariants [OF assms(1)] assms(2)
  have t: "asg_teacher (assignments s a) = teacher s" by (simp add: creator_is_teacher_def)
  with assms(3) have fail: "submitAssignment s e a c p = Inl (SelfSubmissionForbidden, s)"
    by (simp add: submitAssignment_def)
  then have "transact s (e, SubmitAssignment a c p) = s" by (simp add: transact_def)
  moreover from reachable_invariants [OF assms(1)]
  have "\<not> sub_exists (submissions s a (teacher s))" by (auto simp: submissions_wf_def)
  ultimately show ?thesis using fail t by simp
qed

text \<open>
  An instance: the teacher of the concrete run submits to assignment 0 before and
  after its deadline.
\<close>

theorem creator_cannot_submit_witness:
  "0 < asg_deadline (assignments scenario_submitted 0) \<and>
   msg_sender (caller_at 1 1070) = asg_teacher (assignments scenario_submitted 0) \<and>
   failure (submitAssignment scenario_submitted (caller_at 1 1070) 0 7 [1]) =
     Some SelfSubmissionForbidden \<and>
   failure (submitAssignment scenario_submitted (caller_at 1 1200) 0 7 [1]) =
     Some SelfSubmissionForbidden \<and>
   transact scenario_submitted (caller_at 1 1070, SubmitAssignment 0 7 [1]) =
     scenario_submitted \<and>
   \<not> sub_exists (submissions scenario_submitted 0 1)"
proof -
  have facts: "asg_deadline (assignments scenario_submitted 0) = 1100"
    "asg_teacher (assignments scenario_submitted 0) = 1"
    by (simp_all add: scenario_defs)
  from facts
    creator_cannot_submit [OF scenario_reachable(2), of 0 "caller_at 1 1070" 7 "[1]"]
    creator_cannot_submit [OF scenario_reachable(2), of 0 "caller_at 1 1200" 7 "[1]"]
  show ?thesis by (simp add: caller_at_def)
qed

section \<open>The getters\<close>

text \<open>
  Claim C7, as amended.  \<open>getSubmission\<close> and \<open>getGrade\<close> never fail.  In every
  reachable state, for a key with no Submission \<open>getSubmission\<close> returns the zero
  record (handle 0, timestamp 0, \<open>exists = false\<close>), and for a key with no Grade
  \<open>getGrade\<close> returns the zero record; absence is reported by the \<open>exists\<close> flag of
  the returned record, not by an error.
\<close>

theorem getters_return_zero_record:
  assumes "reachable s"
  shows "getSubmission s a st \<noteq> Inl err \<and> getGrade s a st \<noteq> Inl err \<and>
         (\<not> sub_exists (submissions s a st) \<longrightarrow> getSubmission s a st = Inr (0, 0, False)) \<and>
         (\<not> grd_exists (grades s a st) \<longrightarrow> getGrade s a st = Inr (0, 0, False))"
proof -
  from reachable_invariants [OF assms] have z: "absent_zero s" by simp
  have "\<not> sub_exists (submissions s a st) \<Longrightarrow> submissions s a st = zero_Submission"
    using z by (simp add: absent_zero_def)
  moreover have "\<not> grd_exists (grades s a st) \<Longrightarrow> grades s a st = zero_Grade"
    using z by (simp add: absent_zero_def)
  ultimately show ?thesis
    by (auto simp: getSubmission_def getGrade_def zero_Submission_def zero_Grade_def Let_def)
qed

text \<open>
  The claim as stated fails: right after deployment no Submission and no Grade exist
  for assignment 0 and student 2, and both getters return a zero record instead of
  failing with \<open>NotFound\<close>.
\<close>

theorem getters_absent_key_counterexample:
  "\<not> hasSubmitted (constructor 1) 0 2 \<and>
   getSubmission (constructor 1) 0 2 = Inr (0, 0, False) \<and>
   getSubmission (constructor 1) 0 2 \<noteq> Inl NotFound \<and>
   \<not> hasGrade (constructor 1) 0 2 \<and>
   getGrade (constructor 1) 0 2 = Inr (0, 0, False) \<and>
   getGrade (constructor 1) 0 2 \<noteq> Inl NotFound"
  by (simp add: hasSubmitted_def hasGrade_def getSubmission_def getGrade_def constructor_def
      zero_Submission_def zero_Grade_def Let_def)

text \<open>
  An instance: after the concrete run student 4 has no Submission and student 3 has
  no Grade for assignment 0.
\<close>

theorem getters_return_zero_record_witness:
  "\<not> sub_exists (submissions scenario_graded 0 4) \<and>
   getSubmission scenario_graded 0 4 = Inr (0, 0, False) \<and>
   \<not> grd_exists (grades scenario_graded 0 3) \<and>
   getGrade scenario_graded 0 3 = Inr (0, 0, False)"
proof -
  have facts: "\<not> sub_exists (submissions scenario_graded 0 4)"
    "\<not> grd_exists (grades scenario_graded 0 3)"
    by (simp_all add: scenario_defs)
  from facts
    getters_return_zero_record [OF scenario_reachable(3), of 0 4]
    getters_return_zero_record [OF scenario_reachable(3), of 0 3]
  show ?thesis by simp
qed

section \<open>The order of the checks of submitAssignment\<close>

text \<open>
  Claim C8, as amended.  \<open>submitAssignment\<close> reports the first failure of its checks
  in this order: the caller is not the teacher (\<open>SelfSubmissionForbidden\<close>, the
  modifier \<open>onlyStudent\<close>), the assignment exists (\<open>NotFound\<close>), the time is before
  the deadline (\<open>DeadlinePassed\<close>), no earlier Submission (\<open>AlreadySubmitted\<close>), the
  verifier accepts the proof (\<open>InvalidProof\<close>); in a reachable state nothing else makes
  it fail.  In particular the teacher calling it on a nonexistent assignment gets
  \<open>SelfSubmissionForbidden\<close>.
\<close>

theorem submit_check_order:
  assumes "reachable s"
  shows "failure (submitAssignment s e a c p) =
           (if msg_sender e = teacher s then Some SelfSubmissionForbidden
            else if \<not> 0 < asg_deadline (assignments s a) then Some NotFound
            else if \<not> block_timestamp e < asg_deadline (assignments s a)
              then Some DeadlinePassed
            else if sub_exists (submissions s a (msg_sender e)) then Some AlreadySubmitted
            else if fromExternal e c p = None then Some InvalidProof
            else None)"
  using assms by (rule submitAssignment_outcome)

text \<open>
  The claim as stated fails: right after deployment assignment 0 does not exist, and
  the teacher's \<open>submitAssignment\<close> for it fails with \<open>SelfSubmissionForbidden\<close>, not
  with \<open>NotFound\<close>.
\<close>

theorem teacher_submit_nonexistent_counterexample:
  "\<not> 0 < asg_deadline (assignments (constructor 1) 0) \<and>
   msg_sender (caller_at 1 1000) = teacher (constructor 1) \<and>
   failure (submitAssignment (constructor 1) (caller_at 1 1000) 0 7 [1]) =
     Some SelfSubmissionForbidden \<and>
   SelfSubmissionForbidden \<noteq> NotFound"
  by (simp add: scenario_defs)

text \<open>
  An instance: each check in turn is the first to fail in the concrete run.
\<close>

theorem submit_check_order_witness:
  "failure (submitAssignment scenario_submitted (caller_at 1 1200) 5 7 []) =
     Some SelfSubmissionForbidden \<and>
   failure (submitAssignment scenario_submitted (caller_at 2 1200) 5 7 []) = Some NotFound \<and>
   failure (submitAssignment scenario_submitted (caller_at 2 1200) 0 7 []) =
     Some DeadlinePassed \<and>
   failure (submitAssignment scenario_submitted (caller_at 2 1070) 0 7 []) =
     Some AlreadySubmitted \<and>
   failure (submitAssignment scenario_submitted (caller_at 4 1070) 0 7 []) =
     Some InvalidProof \<and>
   failure (submitAssignment scenario_submitted (caller_at 4 1070) 0 7 [1]) = None"
proof -
  have facts: "teacher scenario_submitted = 1"
    "asg_deadline (assignments scenario_submitted 0) = 1100"
    "asg_deadline (assignments scenario_submitted 5) = 0"
    "sub_exists (submissions scenario_submitted 0 2)"
    "\<not> sub_exists (submissions scenario_submitted 0 4)"
    by (simp_all add: scenario_defs)
  from facts
    submit_check_order [OF scenario_reachable(2), of "caller_at 1 1200" 5 7 "[]"]
    submit_check_order [OF scenario_reachable(2), of "caller_at 2 1200" 5 7 "[]"]
    submit_check_order [OF scenario_reachable(2), of "caller_at 2 1200" 0 7 "[]"]
    submit_check_order [OF scenario_reachable(2), of "caller_at 2 1070" 0 7 "[]"]
    submit_check_order [OF scenario_reachable(2), of "caller_at 4 1070" 0 7 "[]"]
    submit_check_order [OF scenario_reachable(2), of "caller_at 4 1070" 0 7 "[1]"]
  show ?thesis by (simp add: caller_at_def nonempty_proof_def)
qed

section \<open>Failing calls\<close>

lemma failure_Some: "failure r = Some err \<longleftrightarrow> (\<exists>d. r = Inl (err, d))"
  by (cases r) (auto simp: failure_def)

lemma createAssignment_Inl: "createAssignment s e t r dl = Inl (err, d) \<Longrightarrow> d = s"
  by (auto simp: createAssignment_def Let_def split: if_splits option.splits)

lemma startGrading_Inl: "startGrading s e a = Inl (err, d) \<Longrightarrow> d = s"
  by (auto simp: startGrading_def Let_def split: if_splits)

lemma gradeSubmission_Inl: "gradeSubmission s e a st c p = Inl (err, d) \<Longrightarrow> d = s"
  by (auto simp: gradeSubmission_def Let_def split: if_splits option.splits)

lemma submitAssignment_Inl:
  assumes "asg_submissionCount (assignments s a) \<noteq> - 1"
    "submitAssignment s e a c p = Inl (err, d)"
  shows "d = s"
  using assms
  by (auto simp: submitAssignment_def Let_def allow_def allowThis_def checked_inc_def
      split: if_splits option.splits)

text \<open>
  Claim C9.  Each of \<open>createAssignment\<close>, \<open>submitAssignment\<close>, \<open>startGrading\<close> and
  \<open>gradeSubmission\<close> is all-or-nothing: when the call fails, for whatever reason
  (a rejected proof included), the whole state after the transaction, grants and
  events included, is the state before it.  Moreover the bodies fail before their
  first write: the storage as the failing body leaves it is already the storage
  before the call; for \<open>submitAssignment\<close> this holds in every reachable state,
  where the overflow check of \<open>submissionCount++\<close>, the only check after its writes,
  cannot fail.
\<close>

theorem failed_call_changes_nothing:
  "(failure (dispatch s e call) \<noteq> None \<longrightarrow> transact s (e, call) = s) \<and>
   (createAssignment s e title requirements deadline = Inl (err, d) \<longrightarrow> d = s) \<and>
   (startGrading s e a = Inl (err, d) \<longrightarrow> d = s) \<and>
   (gradeSubmission s e a st c p = Inl (err, d) \<longrightarrow> d = s) \<and>
   (reachable s \<longrightarrow> submitAssignment s e a c p = Inl (err, d) \<longrightarrow> d = s)"
proof (intro conjI impI)
  assume "failure (dispatch s e call) \<noteq> None"
  then obtain err' d' where "dispatch s e call = Inl (err', d')"
    by (cases "dispatch s e call") (auto simp: failure_def)
  then show "transact s (e, call) = s" by (simp add: transact_def)
next
  assume "createAssignment s e title requirements deadline = Inl (err, d)"
  then show "d = s" by (rule createAssignment_Inl)
next
  assume "startGrading s e a = Inl (err, d)"
  then show "d = s" by (rule startGrading_Inl)
next
  assume "gradeSubmission s e a st c p = Inl (err, d)"
  then show "d = s" by (rule gradeSubmission_Inl)
next
  assume "reachable s" and fail: "submitAssignment s e a c p = Inl (err, d)"
  then have "asg_submissionCount (assignments s a) \<noteq> - 1"
    using reachable_invariants count_not_max by blast
  then show "d = s" using fail by (rule submitAssignment_Inl)
qed

text \<open>
  An instance: in the concrete run a submission with a rejected proof, an assignment
  created by a student, a second \<open>startGrading\<close> too early and a grade for a student
  without submission all fail and leave the state as it was.
\<close>

theorem failed_call_changes_nothing_witness:
  "submitAssignment scenario_submitted (caller_at 4 1070) 0 7 [] =
     Inl (InvalidProof, scenario_submitted) \<and>
   transact scenario_submitted (caller_at 4 1070, SubmitAssignment 0 7 []) =
     scenario_submitted \<and>
   createAssignment scenario_submitted (caller_at 2 1070) ''exam'' ''oral'' 5000 =
     Inl (Unauthorized, scenario_submitted) \<and>
   startGrading scenario_submitted (caller_at 1 1070) 0 =
     Inl (GradingNotOpen, scenario_submitted) \<and>
   gradeSubmission scenario_submitted (caller_at 1 1150) 0 4 9 [1] =
     Inl (NoSubmission, scenario_submitted)"
proof -
  have f: "failure (submitAssignment scenario_submitted (caller_at 4 1070) 0 7 []) =
        Some InvalidProof"
      "failure (createAssignment scenario_submitted (caller_at 2 1070) ''exam'' ''oral'' 5000) =
        Some Unauthorized"
      "failure (startGrading scenario_submitted (caller_at 1 1070) 0) = Some GradingNotOpen"
      "failure (gradeSubmission scenario_submitted (caller_at 1 1150) 0 4 9 [1]) =
        Some NoSubmission"
    by (simp_all add: scenario_defs)
  from f(1) obtain d1 where d1: "submitAssignment scenario_submitted (caller_at 4 1070) 0 7 [] =
      Inl (InvalidProof, d1)" by (auto simp: failure_Some)
  from f(2) obtain d2 where d2:
    "createAssignment scenario_submitted (caller_at 2 1070) ''exam'' ''oral'' 5000 =
      Inl (Unauthorized, d2)" by (auto simp: failure_Some)
  from f(3) obtain d3 where d3: "startGrading scenario_submitted (caller_at 1 1070) 0 =
      Inl (GradingNotOpen, d3)" by (auto simp: failure_Some)
  from f(4) obtain d4 where d4: "gradeSubmission scenario_submitted (caller_at 1 1150) 0 4 9 [1] =
      Inl (NoSubmission, d4)" by (auto simp: failure_Some)
  note all = failed_call_changes_nothing [of scenario_submitted]
  from all [of "caller_at 4 1070" "SubmitAssignment 0 7 []"] f(1)
  have "transact scenario_submitted (caller_at 4 1070, SubmitAssignment 0 7 []) =
      scenario_submitted" by simp
  moreover from all [of "caller_at 4 1070" _ _ _ _ InvalidProof d1 0 _ 7 "[]"] d1
    scenario_reachable(2)
  have "d1 = scenario_submitted" by simp
  moreover from all [of "caller_at 2 1070" _ "''exam''" "''oral''" 5000 Unauthorized d2] d2
  have "d2 = scenario_submitted" by simp
  moreover from all [of "caller_at 1 1070" _ _ _ _ GradingNotOpen d3 0] d3
  have "d3 = scenario_submitted" by simp
  moreover from all [of "caller_at 1 1150" _ _ _ _ NoSubmission d4 0 4 9 "[1]"] d4
  have "d4 = scenario_submitted" by simp
  ultimately show ?thesis using d1 d2 d3 d4 by simp
qed

section \<open>The teacher\<close>

text \<open>
  Claim C10.  After any transactions the teacher is the account that deployed the
  contract, only that account can create assignments, and the creator of every
  existing assignment is that teacher; so for an existing assignment, comparing the
  caller with the global teacher, as \<open>submitAssignment\<close>, \<open>startGrading\<close> and
  \<open>gradeSubmission\<close> do, is comparing it with the assignment's creator.
\<close>

theorem single_teacher:
  "teacher (run (constructor d) txs) = d \<and>
   (msg_sender e \<noteq> d \<longrightarrow>
      failure (createAssignment (run (constructor d) txs) e title requirements deadline) =
        Some Unauthorized) \<and>
   (0 < asg_deadline (assignments (run (constructor d) txs) a) \<longrightarrow>
      asg_teacher (assignments (run (constructor d) txs) a) = d \<and>
      (msg_sender e = teacher (run (constructor d) txs)) =
        (msg_sender e = asg_teacher (assignments (run (constructor d) txs) a)))"
proof -
  let ?s = "run (constructor d) txs"
  have t: "teacher ?s = d" by (simp add: teacher_run constructor_def)
  have "reachable ?s" by (simp add: reachable_run reachable.init)
  then have "creator_is_teacher ?s" by (simp add: reachable_invariants)
  then have "0 < asg_deadline (assignments ?s a) \<Longrightarrow> asg_teacher (assignments ?s a) = d"
    using t by (simp add: creator_is_teacher_def)
  moreover have "msg_sender e \<noteq> d \<Longrightarrow>
      failure (createAssignment ?s e title requirements deadline) = Some Unauthorized"
    using t by (simp add: createAssignment_def)
  ultimately show ?thesis using t by simp
qed

text \<open>
  An instance: in the concrete run account 1 is the teacher and the creator of both
  assignments, and account 2 cannot create an assignment.
\<close>

theorem single_teacher_witness:
  "teacher scenario_created = 1 \<and>
   failure (createAssignment scenario_created (caller_at 2 1000) ''exam'' ''oral'' 5000) =
     Some Unauthorized \<and>
   0 < asg_deadline (assignments scenario_created 1) \<and>
   asg_teacher (assignments scenario_created 1) = 1"
proof -
  have facts: "asg_deadline (assignments scenario_created 1) = 2000"
    by (simp add: scenario_defs)
  from facts single_teacher [of 1
      "[(caller_at 1 1000, CreateAssignment ''essay'' ''two pages'' 1100),
        (caller_at 1 1000, CreateAssignment ''quiz'' ''ten questions'' 2000)]"
      "caller_at 2 1000" "''exam''" "''oral''" 5000 1, folded scenario_created_def]
  show ?thesis by (simp add: caller_at_def)
qed

end
